theory Spec2Isabelle
  imports Complex_Main "HOL-Library.Monad_Syntax" "HOL-Library.AList"
begin

section \<open>JavaScript numbers\<close>

text \<open>
  A JavaScript number is modelled as either \<open>NaN\<close> or a real number. The operators of
  this type are exact; the tier functions are stated with them, as functions of a real
  input. The weighted total score and the weights of the common terms follow the rounding
  of the code's doubles, which the next section writes out. The two infinities are not
  represented; in the code modelled here they could only come from a division by zero or
  an overflow, and the only divisors that are not literals are \<open>durationDays\<close> (at least 1,
  or \<open>NaN\<close>) and an \<open>impressions\<close> value guarded by \<open>> 0\<close>. Arithmetic with \<open>NaN\<close> gives
  \<open>NaN\<close>, and every comparison with \<open>NaN\<close> is false, as in JavaScript.
\<close>

datatype jsnum = NaN | Num real

instantiation jsnum :: "{zero, one, plus, minus, times, inverse, ord}"
begin

definition zero_jsnum :: jsnum where
  "zero_jsnum = Num 0"

definition one_jsnum :: jsnum where
  "one_jsnum = Num 1"

fun plus_jsnum :: "jsnum \<Rightarrow> jsnum \<Rightarrow> jsnum" where
  "plus_jsnum (Num a) (Num b) = Num (a + b)"
| "plus_jsnum _ _ = NaN"

fun minus_jsnum :: "jsnum \<Rightarrow> jsnum \<Rightarrow> jsnum" where
  "minus_jsnum (Num a) (Num b) = Num (a - b)"
| "minus_jsnum _ _ = NaN"

fun times_jsnum :: "jsnum \<Rightarrow> jsnum \<Rightarrow> jsnum" where
  "times_jsnum (Num a) (Num b) = Num (a * b)"
| "times_jsnum _ _ = NaN"

fun divide_jsnum :: "jsnum \<Rightarrow> jsnum \<Rightarrow> jsnum" where
  "divide_jsnum (Num a) (Num b) = (if b = 0 then NaN else Num (a / b))"
| "divide_jsnum _ _ = NaN"

fun inverse_jsnum :: "jsnum \<Rightarrow> jsnum" where
  "inverse_jsnum (Num a) = (if a = 0 then NaN else Num (1 / a))"
| "inverse_jsnum NaN = NaN"

fun less_eq_jsnum :: "jsnum \<Rightarrow> jsnum \<Rightarrow> bool" where
  "less_eq_jsnum (Num a) (Num b) = (a \<le> b)"
| "less_eq_jsnum _ _ = False"

fun less_jsnum :: "jsnum \<Rightarrow> jsnum \<Rightarrow> bool" where
  "less_jsnum (Num a) (Num b) = (a < b)"
| "less_jsnum _ _ = False"

instance ..

end

instance jsnum :: numeral
proof
  fix a b c :: jsnum
  show "a + b + c = a + (b + c)"
    by (cases a; cases b; cases c) simp_all
qed

instance jsnum :: monoid_mult
proof
  fix a b c :: jsnum
  show "a * b * c = a * (b * c)"
    by (cases a; cases b; cases c) simp_all
  show "1 * a = a" and "a * 1 = a"
    by (cases a; simp add: one_jsnum_def)+
qed

text \<open>\<open>Math.max\<close>, \<open>Math.min\<close> (two arguments) and \<open>Math.round\<close> (halves round up).\<close>

fun Math_max :: "jsnum \<Rightarrow> jsnum \<Rightarrow> jsnum" where
  "Math_max (Num a) (Num b) = Num (max a b)"
| "Math_max _ _ = NaN"

fun Math_min :: "jsnum \<Rightarrow> jsnum \<Rightarrow> jsnum" where
  "Math_min (Num a) (Num b) = Num (min a b)"
| "Math_min _ _ = NaN"

fun Math_round :: "jsnum \<Rightarrow> jsnum" where
  "Math_round (Num a) = Num (of_int \<lfloor>a + 1 / 2\<rfloor>)"
| "Math_round NaN = NaN"

text \<open>The real number behind a score, for statements of real analysis (0 for \<open>NaN\<close>).\<close>

fun valueOf :: "jsnum \<Rightarrow> real" where
  "valueOf (Num a) = a"
| "valueOf NaN = 0"

section \<open>Rounding to doubles\<close>

text \<open>
  Where a result of the code depends on the rounding of its arithmetic, the model rounds
  too: \<open>double x\<close> is the double nearest to the real \<open>x\<close>, ties going to the even
  significand (IEEE 754 binary64, with its subnormal numbers). \<open>rne\<close> rounds to the nearest
  integer, ties to even; \<open>binade x\<close> is the exponent of \<open>x\<close>, at least \<open>emin\<close>; a double of that
  binade is an integer multiple of \<open>2 powi (binade x - 52)\<close>. Every double is an integer
  multiple of the least positive one, \<open>2 powi (emin - 52)\<close> (\<open>on_grid\<close>). Overflow is left out,
  like the infinities: the statements that use \<open>double\<close> are about numbers far below the
  largest double.
\<close>

definition rne :: "real \<Rightarrow> int" where
  "rne x =
     (let f = \<lfloor>x\<rfloor>; r = x - of_int f
      in if r < 1 / 2 then f
         else if 1 / 2 < r then f + 1
         else if even f then f else f + 1)"

definition emin :: int where
  "emin = - 1022"

definition binade :: "real \<Rightarrow> int" where
  "binade x = max emin \<lfloor>log 2 \<bar>x\<bar>\<rfloor>"

definition double :: "real \<Rightarrow> real" where
  "double x =
     (if x = 0 then 0
      else of_int (rne (x / 2 powi (binade x - 52))) * 2 powi (binade x - 52))"

definition on_grid :: "real \<Rightarrow> bool" where
  "on_grid x = (\<exists>k :: int. x = of_int k * 2 powi (emin - 52))"

text \<open>
  The value of a numeric literal, and the operators \<open>+\<close> and \<open>*\<close> of the code on two
  doubles.
\<close>

fun dbl :: "jsnum \<Rightarrow> jsnum" where
  "dbl (Num a) = Num (double a)"
| "dbl NaN = NaN"

definition plus_double :: "jsnum \<Rightarrow> jsnum \<Rightarrow> jsnum" where
  "plus_double a b = dbl (a + b)"

definition times_double :: "jsnum \<Rightarrow> jsnum \<Rightarrow> jsnum" where
  "times_double a b = dbl (a * b)"

section \<open>Strings and \<open>parseInt\<close>\<close>

text \<open>
  Strings are lists of characters, each a code unit below 256. \<open>isWhiteSpace\<close> holds of
  the white space and line terminators among them. \<open>split_str\<close> is \<open>String.prototype.split\<close> with a
  one-character separator; filtering with \<open>isDigit\<close> is \<open>replace(/[^\d]/g, '')\<close>;
  \<open>parseInt\<close> is \<open>parseInt(s, 10)\<close>: leading white space, an optional sign, then the
  longest run of decimal digits, and \<open>NaN\<close> when that run is empty. The value of the run
  is exact here; the code has the double nearest to it, the same number below \<open>2\<^sup>5\<^sup>3\<close>.
\<close>

definition isDigit :: "char \<Rightarrow> bool" where
  "isDigit c = (c \<in> set ''0123456789'')"

definition isWhiteSpace :: "char \<Rightarrow> bool" where
  "isWhiteSpace c =
     (c \<in> set [CHR '' '', CHR 0x09, CHR 0x0A, CHR 0x0B, CHR 0x0C, CHR 0x0D, CHR 0xA0])"

definition digitValue :: "char \<Rightarrow> nat" where
  "digitValue c = of_char c - 48"

definition digitsValue :: "string \<Rightarrow> nat" where
  "digitsValue ds = foldl (\<lambda>acc c. 10 * acc + digitValue c) 0 ds"

definition parseInt :: "string \<Rightarrow> jsnum" where
  "parseInt s =
     (let t = dropWhile isWhiteSpace s;
          negative = (t \<noteq> [] \<and> hd t = CHR ''-'');
          u = (if t \<noteq> [] \<and> (hd t = CHR ''-'' \<or> hd t = CHR ''+'') then tl t else t);
          ds = takeWhile isDigit u
      in if ds = [] then NaN
         else if negative then Num (- real (digitsValue ds))
         else Num (real (digitsValue ds)))"

fun split_str :: "char \<Rightarrow> string \<Rightarrow> string list" where
  "split_str sep [] = [[]]"
| "split_str sep (c # cs) =
     (if c = sep then [] # split_str sep cs
      else (case split_str sep cs of
              w # ws \<Rightarrow> (c # w) # ws
            | [] \<Rightarrow> [[c]]))"

section \<open>Range parsing (\<open>parseSpendRange\<close>, \<open>parseImpressionRange\<close>)\<close>

text \<open>
  The value of a range field of a raw ad: absent (\<open>undefined\<close>, \<open>null\<close>: falsy), a
  string, or some other truthy value that is not a string (the ad library can deliver an
  object with bounds). On the last kind \<open>spendRange.includes\<close> is not a function, the call
  throws a \<open>TypeError\<close> inside the \<open>try\<close>, and the \<open>catch\<close> returns \<open>0\<close>.
\<close>

datatype js_error = TypeError | RangeError | DatabaseError | RedisError

datatype range_field = Undefined | Str string | NonString

text \<open>
  The body of the \<open>try\<close> block of \<open>parseSpendRange\<close>. A string with a hyphen splits into
  at least two parts, of which the first two are used.
\<close>

fun parseSpendRange_try :: "range_field \<Rightarrow> js_error + jsnum" where
  "parseSpendRange_try (Str spendRange) =
     (if CHR ''-'' \<in> set spendRange then
        (case map (\<lambda>val. parseInt (filter isDigit val)) (split_str CHR ''-'' spendRange) of
           min_val # max_val # _ \<Rightarrow> Inr ((min_val + max_val) / 2)
         | _ \<Rightarrow> Inr NaN)
      else if CHR ''<'' \<in> set spendRange then
        Inr (parseInt (filter isDigit spendRange) / 2)
      else if CHR ''>'' \<in> set spendRange then
        Inr (parseInt (filter isDigit spendRange) * 1.5)
      else
        Inr (parseInt (filter isDigit spendRange)))"
| "parseSpendRange_try _ = Inl TypeError"

text \<open>\<open>!spendRange\<close>: absent values and the empty string are falsy.\<close>

fun falsy :: "range_field \<Rightarrow> bool" where
  "falsy Undefined = True"
| "falsy (Str s) = (s = [])"
| "falsy NonString = False"

definition parseSpendRange :: "range_field \<Rightarrow> jsnum" where
  "parseSpendRange spendRange =
     (if falsy spendRange then 0
      else (case parseSpendRange_try spendRange of
              Inr v \<Rightarrow> v
            | Inl error \<Rightarrow> 0))"

definition parseImpressionRange :: "range_field \<Rightarrow> jsnum" where
  "parseImpressionRange impressionRange = parseSpendRange impressionRange"

section \<open>Component scores and the total score\<close>

definition calculateDurationScore :: "jsnum \<Rightarrow> jsnum" where
  "calculateDurationScore durationDays =
     (if durationDays \<ge> 60 then 25
      else if durationDays \<ge> 30 then 15 + ((durationDays - 30) / 30) * 10
      else if durationDays \<ge> 14 then 10 + ((durationDays - 14) / 16) * 5
      else if durationDays \<ge> 7 then 5 + ((durationDays - 7) / 7) * 5
      else Math_max 0 ((durationDays / 7) * 5))"

definition calculateSpendScore :: "jsnum \<Rightarrow> jsnum" where
  "calculateSpendScore spendAmount =
     (if spendAmount \<ge> 5000 then 25
      else if spendAmount \<ge> 1000 then 15 + ((spendAmount - 1000) / 4000) * 10
      else if spendAmount \<ge> 500 then 10 + ((spendAmount - 500) / 500) * 5
      else if spendAmount \<ge> 100 then 5 + ((spendAmount - 100) / 400) * 5
      else Math_max 0 ((spendAmount / 100) * 5))"

definition calculateImpressionsScore :: "jsnum \<Rightarrow> jsnum" where
  "calculateImpressionsScore impressions =
     (if impressions \<ge> 500000 then 25
      else if impressions \<ge> 100000 then 15 + ((impressions - 100000) / 400000) * 10
      else if impressions \<ge> 50000 then 10 + ((impressions - 50000) / 50000) * 5
      else if impressions \<ge> 10000 then 5 + ((impressions - 10000) / 40000) * 5
      else Math_max 0 ((impressions / 10000) * 5))"

record metrics =
  durationDays :: jsnum
  spendAmount :: jsnum
  impressions :: jsnum
  estimatedEngagement :: jsnum
  dailySpend :: jsnum
  dailyImpressions :: jsnum

record component_scores =
  durationScore :: jsnum
  spendScore :: jsnum
  impressionsScore :: jsnum
  engagementScore :: jsnum

definition calculateEngagementScore :: "metrics \<Rightarrow> jsnum" where
  "calculateEngagementScore metrics =
     (let engagementRate =
            (if metrics.impressions metrics > 0
             then estimatedEngagement metrics / metrics.impressions metrics else 0)
      in if engagementRate \<ge> 0.10 then 25
         else if engagementRate \<ge> 0.05 then 15 + ((engagementRate - 0.05) / 0.05) * 10
         else if engagementRate \<ge> 0.03 then 10 + ((engagementRate - 0.03) / 0.02) * 5
         else if engagementRate \<ge> 0.01 then 5 + ((engagementRate - 0.01) / 0.02) * 5
         else Math_max 0 ((engagementRate / 0.01) * 5))"

text \<open>
  The weighted sum is computed in doubles, from left to right: each product and each sum
  is rounded, and so are the literals \<open>1.2\<close> and \<open>0.8\<close>.
\<close>

definition calculateTotalScore :: "component_scores \<Rightarrow> jsnum" where
  "calculateTotalScore componentScores =
     (let weightedScore =
            plus_double
              (plus_double
                 (plus_double
                    (times_double (durationScore componentScores) (dbl 1.2))
                    (times_double (spendScore componentScores) (dbl 0.8)))
                 (times_double (impressionsScore componentScores) (dbl 0.8)))
              (times_double (engagementScore componentScores) (dbl 1.2))
      in Math_round weightedScore)"

section \<open>Raw ads and metric extraction\<close>

text \<open>
  A raw ad as the ad library delivers it. The two delivery times are kept as what
  \<open>new Date(...)\<close> makes of them: a time stamp in milliseconds, \<open>NaN\<close> for an invalid date;
  the stop time is \<open>None\<close> when the field is absent. Optional arrays are \<open>None\<close> when
  absent (an empty array is present, and truthy). Field \<open>ad_id\<close> is the source's \<open>id\<close>.
  Of a demographic entry only its presence in the array is ever used.
\<close>

type_synonym demographic_entry = "string \<times> string \<times> string"

record raw_ad =
  ad_id :: string
  ad_delivery_start_time :: jsnum
  ad_delivery_stop_time :: "jsnum option"
  spend :: range_field
  impressions :: range_field
  ad_creative_bodies :: "string list option"
  ad_creative_link_titles :: "string list option"
  ad_creative_link_descriptions :: "string list option"
  demographic_distribution :: "demographic_entry list option"

text \<open>\<open>Array.prototype.join\<close> on an array of strings.\<close>

fun join :: "string \<Rightarrow> string list \<Rightarrow> string" where
  "join sep [] = []"
| "join sep [x] = x"
| "join sep (x # y # ys) = x @ sep @ join sep (y # ys)"

text \<open>
  \<open>extractMetrics\<close> calls \<open>estimateEngagement\<close>, and \<open>estimateEngagement\<close> calls
  \<open>extractMetrics\<close> on the same ad to read \<open>durationDays\<close>. The two methods are one
  recursive function on the kind of call; a call that does not return has the value
  \<open>None\<close>. Argument \<open>now\<close> is the clock read by \<open>new Date()\<close>. A local variable
  that has the name of a record field carries a prime.
\<close>

datatype metric_call = ExtractMetrics raw_ad | EstimateEngagement raw_ad jsnum

datatype metric_result = Metrics metrics | Engagement jsnum

partial_function (option) metric_calls :: "real \<Rightarrow> metric_call \<Rightarrow> metric_result option" where
  "metric_calls now call =
     (case call of
        ExtractMetrics adData \<Rightarrow>
          (let startTime = ad_delivery_start_time adData;
               endTime = (case ad_delivery_stop_time adData of Some t \<Rightarrow> t | None \<Rightarrow> Num now);
               durationDays' = Math_max 1 (Math_round ((endTime - startTime) / (1000 * 60 * 60 * 24)));
               spendAmount' = parseSpendRange (spend adData);
               impressions' = parseImpressionRange (raw_ad.impressions adData)
           in Option.bind (metric_calls now (EstimateEngagement adData impressions'))
                (\<lambda>r. case r of
                   Engagement estimatedEngagement' \<Rightarrow>
                     Some (Metrics
                       \<lparr>durationDays = durationDays',
                        spendAmount = spendAmount',
                        metrics.impressions = impressions',
                        estimatedEngagement = estimatedEngagement',
                        dailySpend = spendAmount' / durationDays',
                        dailyImpressions = impressions' / durationDays'\<rparr>)
                 | Metrics _ \<Rightarrow> None))
      | EstimateEngagement adData impressions' \<Rightarrow>
          Option.bind (metric_calls now (ExtractMetrics adData))
            (\<lambda>r. case r of
               Metrics extracted \<Rightarrow>
                 (let durationFactor = Math_min 1.5 (1 + (durationDays extracted / 30) * 0.5);
                      demographicFactor =
                        (case demographic_distribution adData of
                           Some entries \<Rightarrow> Math_min 1.2 (1 + (Num (real (length entries)) / 10) * 0.2)
                         | None \<Rightarrow> 1);
                      contentFactor =
                        (case ad_creative_bodies adData of
                           Some bodies \<Rightarrow>
                             Math_min 1.3 (1 + (Num (real (length (join '' '' bodies))) / 500) * 0.3)
                         | None \<Rightarrow> 1);
                      avgCTR = 0.01;
                      estimatedClicks =
                        impressions' * avgCTR * durationFactor * demographicFactor * contentFactor;
                      postEngagementRatio = 2.5;
                      estimatedPostEngagements = estimatedClicks * postEngagementRatio
                  in Some (Engagement (estimatedClicks + estimatedPostEngagements)))
             | Engagement _ \<Rightarrow> None))"

definition extractMetrics :: "real \<Rightarrow> raw_ad \<Rightarrow> metrics option" where
  "extractMetrics now adData =
     Option.bind (metric_calls now (ExtractMetrics adData))
       (\<lambda>r. case r of Metrics m \<Rightarrow> Some m | Engagement _ \<Rightarrow> None)"

definition estimateEngagement :: "real \<Rightarrow> raw_ad \<Rightarrow> jsnum \<Rightarrow> jsnum option" where
  "estimateEngagement now adData impressions' =
     Option.bind (metric_calls now (EstimateEngagement adData impressions'))
       (\<lambda>r. case r of Engagement e \<Rightarrow> Some e | Metrics _ \<Rightarrow> None)"

section \<open>Scoring one ad (\<open>calculateScore\<close>)\<close>

text \<open>
  The stored score of an ad (the fields of an \<open>AdScoreModel\<close> document that are read), a
  scored ad (the raw ad, spread into the result, with its score and component scores),
  and the outcomes of the database calls, by ad identifier where the call has one: each
  call either rejects with an error or resolves. A bulk write is ordered: when it rejects,
  the operations before the failing one have been applied, and the outcome says how
  many. \<open>Date_now\<close> is the clock of one run.
\<close>

record score_doc =
  totalScore :: jsnum
  componentScores :: component_scores
  updatedAt :: real

record scored_ad =
  ad :: raw_ad
  successScore :: jsnum
  componentScores :: component_scores

record database =
  Date_now :: real
  AdScoreModel_findOne :: "string \<Rightarrow> js_error + score_doc option"
  AdScoreModel_findOneAndUpdate :: "string \<Rightarrow> js_error + unit"
  SuccessfulAdModel_bulkWrite :: "js_error \<times> nat + unit"

text \<open>
  The part of the \<open>try\<close> block after the cache check. A call of \<open>extractMetrics\<close> that
  does not return exhausts the call stack, which JavaScript reports as a \<open>RangeError\<close>.
\<close>

definition calculateScore_recompute :: "database \<Rightarrow> raw_ad \<Rightarrow> js_error + scored_ad" where
  "calculateScore_recompute db adData =
     (case extractMetrics (Date_now db) adData of
        None \<Rightarrow> Inl RangeError
      | Some metrics \<Rightarrow>
          (let componentScores' =
                 \<lparr>durationScore = calculateDurationScore (durationDays metrics),
                  spendScore = calculateSpendScore (spendAmount metrics),
                  impressionsScore = calculateImpressionsScore (metrics.impressions metrics),
                  engagementScore = calculateEngagementScore metrics\<rparr>;
               totalScore' = calculateTotalScore componentScores'
           in (case AdScoreModel_findOneAndUpdate db (ad_id adData) of
                 Inl error \<Rightarrow> Inl error
               | Inr _ \<Rightarrow>
                   Inr \<lparr>ad = adData, scored_ad.successScore = totalScore',
                        scored_ad.componentScores = componentScores'\<rparr>)))"

text \<open>The \<open>try\<close> block of \<open>calculateScore\<close>: a score stored less than 24 hours ago is reused.\<close>

definition calculateScore_try :: "database \<Rightarrow> raw_ad \<Rightarrow> js_error + scored_ad" where
  "calculateScore_try db adData =
     (case AdScoreModel_findOne db (ad_id adData) of
        Inl error \<Rightarrow> Inl error
      | Inr None \<Rightarrow> calculateScore_recompute db adData
      | Inr (Some existingScore) \<Rightarrow>
          if score_doc.updatedAt existingScore > Date_now db - 24 * 60 * 60 * 1000
          then Inr \<lparr>ad = adData, scored_ad.successScore = totalScore existingScore,
                    scored_ad.componentScores = score_doc.componentScores existingScore\<rparr>
          else calculateScore_recompute db adData)"

text \<open>The result of the \<open>catch\<close> block.\<close>

definition defaultScore :: "raw_ad \<Rightarrow> scored_ad" where
  "defaultScore adData =
     \<lparr>ad = adData, scored_ad.successScore = 0,
      scored_ad.componentScores =
        \<lparr>durationScore = 0, spendScore = 0, impressionsScore = 0, engagementScore = 0\<rparr>\<rparr>"

definition calculateScore :: "database \<Rightarrow> raw_ad \<Rightarrow> js_error + scored_ad" where
  "calculateScore db adData =
     (case calculateScore_try db adData of
        Inr scored \<Rightarrow> Inr scored
      | Inl error \<Rightarrow> Inr (defaultScore adData))"

section \<open>Scoring a batch (\<open>processAds\<close>)\<close>

definition MIN_SUCCESS_SCORE :: jsnum where
  "MIN_SUCCESS_SCORE = 70"

text \<open>\<open>Promise.all\<close>: rejects as soon as one of the promises rejects.\<close>

fun Promise_all :: "(js_error + 'a) list \<Rightarrow> js_error + 'a list" where
  "Promise_all [] = Inr []"
| "Promise_all (Inl error # ps) = Inl error"
| "Promise_all (Inr v # ps) =
     (case Promise_all ps of Inl error \<Rightarrow> Inl error | Inr vs \<Rightarrow> Inr (v # vs))"

text \<open>
  A document of the collection of successful ads. \<open>storeSuccessfulAds\<close> catches every
  error of the bulk write; its value here is the list of documents that reach the
  collection.
\<close>

record successful_ad =
  adId :: string
  successScore :: jsnum
  componentScores :: component_scores
  adData :: scored_ad
  updatedAt :: real


definition storeSuccessfulAds :: "database \<Rightarrow> scored_ad list \<Rightarrow> successful_ad list" where
  "storeSuccessfulAds db successfulAds =
     (let operations =
            map (\<lambda>a. \<lparr>adId = ad_id (ad a),
                       successful_ad.successScore = scored_ad.successScore a,
                       successful_ad.componentScores = scored_ad.componentScores a,
                       adData = a,
                       successful_ad.updatedAt = Date_now db\<rparr>) successfulAds
      in if length operations > 0
         then (case SuccessfulAdModel_bulkWrite db of
                 Inr _ \<Rightarrow> operations
               | Inl (error, applied) \<Rightarrow> take applied operations)
         else [])"

text \<open>
  \<open>processAds\<close> resolves to the successful ads; \<open>stored\<close> records what it wrote to the
  database on the way. The pattern analysis it starts afterwards is detached (its
  rejection is caught and logged) and has no part in the result.
\<close>

record process_outcome =
  returned :: "scored_ad list"
  stored :: "successful_ad list"

definition processAds :: "database \<Rightarrow> raw_ad list \<Rightarrow> js_error + process_outcome" where
  "processAds db ads =
     (case Promise_all (map (\<lambda>a. calculateScore db a) ads) of
        Inl error \<Rightarrow> Inl error
      | Inr scoredAds \<Rightarrow>
          (let successfulAds =
                 filter (\<lambda>a. scored_ad.successScore a \<ge> MIN_SUCCESS_SCORE) scoredAds
           in Inr \<lparr>returned = successfulAds,
                   stored = storeSuccessfulAds db successfulAds\<rparr>))"

section \<open>Common terms (\<open>extractCommonTerms\<close>)\<close>

text \<open>
  The TF-IDF model comes from the library \<open>natural\<close>: \<open>listTerms(i)\<close> gives the terms of
  document \<open>i\<close> with their weights, heaviest first. The lists of all documents, in the order
  of the documents, and the library's list of stopwords are arguments of the model. Weights
  are finite numbers; their sums and averages are rounded to doubles as the code's are.
\<close>

record term_item =
  "term" :: string
  tfidf :: real

record term_entry =
  "term" :: string
  count :: nat
  tfidfSum :: real

record common_term =
  "term" :: string
  count :: nat
  averageTfidf :: real

text \<open>
  \<open>String.prototype.toLowerCase\<close>: the upper-case letters below 256 are A to Z (65 to 90)
  and the accented capitals 192 to 222 without the multiplication sign 215; the lower-case
  letter of each is 32 code units further.
\<close>

definition isUpperCase :: "char \<Rightarrow> bool" where
  "isUpperCase c =
     (let n = of_char c :: nat
      in (65 \<le> n \<and> n \<le> 90) \<or> (192 \<le> n \<and> n \<le> 222 \<and> n \<noteq> 215))"

definition toLowerCase_char :: "char \<Rightarrow> char" where
  "toLowerCase_char c =
     (if isUpperCase c then char_of (of_char c + (32 :: nat)) else c)"

definition toLowerCase :: "string \<Rightarrow> string" where
  "toLowerCase s = map toLowerCase_char s"

text \<open>
  The object \<open>terms\<close> is the list of its own properties in the order of their creation. A
  term that names a property inherited from \<open>Object.prototype\<close> finds a truthy value under
  \<open>terms[term]\<close> without the object having the property itself: the \<open>else\<close> branch then
  writes to the inherited object, and \<open>terms\<close> stays as it is.
\<close>

type_synonym terms_object = "(string \<times> term_entry) list"

definition Object_prototype_keys :: "string list" where
  "Object_prototype_keys =
     [''constructor'', ''__defineGetter__'', ''__defineSetter__'', ''hasOwnProperty'',
      ''__lookupGetter__'', ''__lookupSetter__'', ''isPrototypeOf'', ''propertyIsEnumerable'',
      ''toString'', ''valueOf'', ''__proto__'', ''toLocaleString'']"

text \<open>The body of the \<open>forEach\<close> callback.\<close>

definition add_term :: "string list \<Rightarrow> terms_object \<Rightarrow> term_item \<Rightarrow> terms_object" where
  "add_term stopwords terms item =
     (let term' = toLowerCase (term_item.term item)
      in if term' \<in> set stopwords \<or> length term' < 3 then terms
         else (case map_of terms term' of
                 None \<Rightarrow>
                   if term' \<in> set Object_prototype_keys then terms
                   else AList.update term'
                          \<lparr>term_entry.term = term', term_entry.count = 1, tfidfSum = tfidf item\<rparr>
                          terms
               | Some entry \<Rightarrow>
                   AList.update term'
                     (entry\<lparr>term_entry.count := term_entry.count entry + 1,
                            tfidfSum := double (tfidfSum entry + tfidf item)\<rparr>)
                     terms))"

text \<open>The \<open>for\<close> loop over the documents: the first ten terms of each.\<close>

definition collect_terms :: "string list \<Rightarrow> term_item list list \<Rightarrow> terms_object" where
  "collect_terms stopwords documents =
     foldl (\<lambda>terms listTerms_i. foldl (add_term stopwords) terms (take 10 listTerms_i))
       [] documents"

text \<open>
  \<open>Object.values\<close>: the properties whose key is an array index (a canonical decimal numeral
  below \<open>2\<^sup>3\<^sup>2 - 1\<close>) come first, in ascending numeric order, then the others in the order of
  their creation.
\<close>

definition isArrayIndex :: "string \<Rightarrow> bool" where
  "isArrayIndex k =
     (k \<noteq> [] \<and> list_all isDigit k \<and> (k = ''0'' \<or> hd k \<noteq> CHR ''0'')
      \<and> digitsValue k < 4294967295)"

definition Object_values :: "(string \<times> 'v) list \<Rightarrow> 'v list" where
  "Object_values obj =
     map snd (sort_key (\<lambda>p. digitsValue (fst p)) (filter (\<lambda>p. isArrayIndex (fst p)) obj)
              @ filter (\<lambda>p. \<not> isArrayIndex (fst p)) obj)"

text \<open>
  \<open>Array.prototype.sort\<close> with a comparison function is stable: the result is sorted and
  elements that compare as equal keep their order.
\<close>

fun insert_sorted :: "('a \<Rightarrow> 'a \<Rightarrow> real) \<Rightarrow> 'a \<Rightarrow> 'a list \<Rightarrow> 'a list" where
  "insert_sorted compare x [] = [x]"
| "insert_sorted compare x (y # ys) =
     (if compare x y \<le> 0 then x # y # ys else y # insert_sorted compare x ys)"

definition Array_sort :: "('a \<Rightarrow> 'a \<Rightarrow> real) \<Rightarrow> 'a list \<Rightarrow> 'a list" where
  "Array_sort compare xs = foldr (insert_sorted compare) xs []"

text \<open>The comparison function of the final ranking.\<close>

definition compareTerms :: "common_term \<Rightarrow> common_term \<Rightarrow> real" where
  "compareTerms a b =
     (if count b \<noteq> count a then double (real (count b) - real (count a))
      else double (averageTfidf b - averageTfidf a))"

definition extractCommonTerms :: "string list \<Rightarrow> term_item list list \<Rightarrow> common_term list" where
  "extractCommonTerms stopwords documents =
     take 20
       (Array_sort compareTerms
          (filter (\<lambda>item. count item > 1)
             (map (\<lambda>item. \<lparr>common_term.term = term_entry.term item,
                            count = term_entry.count item,
                            averageTfidf =
                              double (tfidfSum item / real (term_entry.count item))\<rparr>)
                (Object_values (collect_terms stopwords documents)))))"

subsection \<open>Quantities for the statements about the common terms\<close>

text \<open>
  The key under which an item is counted; the items the loop visits, in its order; the
  number of documents that have a term among their first ten; and the order of the final
  ranking: more documents first, and among equals the higher average weight first.
\<close>

definition item_key :: "term_item \<Rightarrow> string" where
  "item_key item = toLowerCase (term_item.term item)"

definition visited_items :: "term_item list list \<Rightarrow> term_item list" where
  "visited_items documents = concat (map (take 10) documents)"

definition documentCount :: "term_item list list \<Rightarrow> string \<Rightarrow> nat" where
  "documentCount documents t =
     length (filter (\<lambda>listTerms_i. t \<in> set (map item_key (take 10 listTerms_i))) documents)"

text \<open>
  The sum of a list of weights as the loop accumulates it: the first weight as it is, every
  further addition rounded.
\<close>

definition double_sum :: "real list \<Rightarrow> real" where
  "double_sum ws = (case ws of [] \<Rightarrow> 0 | w # rest \<Rightarrow> foldl (\<lambda>s x. double (s + x)) w rest)"

text \<open>
  The weights the library gives are doubles far below the largest double, and a model
  holds fewer than \<open>2\<^sup>3\<^sup>2\<close> documents: no sum of weights leaves the range of the doubles.
\<close>

definition weights_in_range :: "term_item list list \<Rightarrow> bool" where
  "weights_in_range documents =
     (length documents < 2 ^ 32
      \<and> (\<forall>item \<in> set (visited_items documents).
            double (tfidf item) = tfidf item \<and> \<bar>tfidf item\<bar> \<le> 2 ^ 64))"

definition ranks_before :: "common_term \<Rightarrow> common_term \<Rightarrow> bool" where
  "ranks_before a b =
     (count a > count b \<or> (count a = count b \<and> averageTfidf a \<ge> averageTfidf b))"

section \<open>Pattern analysis and the pattern cache\<close>

record structure_patterns =
  averageTextLength :: jsnum
  ctaPresenceRate :: jsnum
  questionPresenceRate :: jsnum
  emojiPresenceRate :: jsnum

record visual_patterns =
  imagePresenceRate :: nat
  videoPresenceRate :: nat
  carouselPresenceRate :: nat
  "note" :: string

record patterns =
  commonTerms :: "common_term list"
  structurePatterns :: structure_patterns
  visualPatterns :: visual_patterns
  updatedAt :: real

text \<open>
  What the analysis takes from outside: the stopwords and the term lists of the library
  \<open>natural\<close> (\<open>listTerms texts i\<close> is \<open>listTerms(i)\<close> after the texts were added as
  documents), and the text statistics of \<open>analyzeAdStructure\<close>, which test the ad bodies
  against a Unicode regular expression and are the subject of no statement below.
\<close>

record analysis =
  stopwords :: "string list"
  listTerms :: "string list \<Rightarrow> nat \<Rightarrow> term_item list"
  analyzeAdStructure :: "scored_ad list \<Rightarrow> structure_patterns"

definition analyzeVisualElements :: "scored_ad list \<Rightarrow> visual_patterns" where
  "analyzeVisualElements ads =
     \<lparr>imagePresenceRate = 95, videoPresenceRate = 60, carouselPresenceRate = 40,
      note = ''Visual analysis requires additional implementation''\<rparr>"

text \<open>
  The pattern cache: the value under the key \<open>ad_success_patterns\<close> (the report itself
  stands for its JSON text), and whether a \<open>get\<close> or a \<open>set\<close> rejects, as both do when the
  server cannot be reached.
\<close>

record redis =
  get_fails :: bool
  set_fails :: bool
  ad_success_patterns :: "patterns option"

definition redis_get :: "redis \<Rightarrow> js_error + patterns option" where
  "redis_get r = (if get_fails r then Inl RedisError else Inr (ad_success_patterns r))"

definition redis_set :: "redis \<Rightarrow> patterns \<Rightarrow> js_error + redis" where
  "redis_set r v = (if set_fails r then Inl RedisError else Inr (r\<lparr>ad_success_patterns := Some v\<rparr>))"

text \<open>The three text arrays of an ad, absent arrays read as empty.\<close>

definition creative_texts :: "scored_ad \<Rightarrow> string list" where
  "creative_texts a =
     (case ad_creative_bodies (ad a) of Some xs \<Rightarrow> xs | None \<Rightarrow> [])
     @ (case ad_creative_link_titles (ad a) of Some xs \<Rightarrow> xs | None \<Rightarrow> [])
     @ (case ad_creative_link_descriptions (ad a) of Some xs \<Rightarrow> xs | None \<Rightarrow> [])"

definition documentTerms :: "analysis \<Rightarrow> string list \<Rightarrow> term_item list list" where
  "documentTerms lib texts = map (listTerms lib texts) [0..<length texts]"

subsection \<open>\<open>analyzeSuccessPatterns\<close> as the analysis engine first had it\<close>

text \<open>
  This version resolves to \<open>undefined\<close> whatever happens: its \<open>catch\<close> logs the error and
  swallows it. Its value here is the cache after the call.
\<close>

definition analyzeSuccessPatterns_v1 :: "analysis \<Rightarrow> real \<Rightarrow> redis \<Rightarrow> scored_ad list \<Rightarrow> redis" where
  "analyzeSuccessPatterns_v1 lib clock r successfulAds =
     (if length successfulAds < 5 then r
      else
        (let adContents = map (\<lambda>a. join '' '' (creative_texts a)) successfulAds;
             commonTerms' = extractCommonTerms (stopwords lib) (documentTerms lib adContents);
             structurePatterns' = analyzeAdStructure lib successfulAds;
             visualPatterns' = analyzeVisualElements successfulAds;
             patterns' = \<lparr>commonTerms = commonTerms', structurePatterns = structurePatterns',
                          visualPatterns = visualPatterns', updatedAt = clock\<rparr>
         in (case redis_set r patterns' of
               Inr r' \<Rightarrow> r'
             | Inl error \<Rightarrow> r)))"

subsection \<open>\<open>analyzeSuccessPatterns\<close> after the partial fix\<close>

text \<open>
  \<open>trim\<close> removes white space at both ends. The fixed version drops empty strings before
  joining, keeps only the ads whose text has a character that is not white space, and
  needs five of them; it returns the report (\<open>None\<close> is \<open>undefined\<close>) and skips a cache
  write that fails.
\<close>

definition trim :: "string \<Rightarrow> string" where
  "trim s = rev (dropWhile isWhiteSpace (rev (dropWhile isWhiteSpace s)))"

definition analyzeSuccessPatterns :: "analysis \<Rightarrow> real \<Rightarrow> redis \<Rightarrow> scored_ad list \<Rightarrow> patterns option \<times> redis" where
  "analyzeSuccessPatterns lib clock r successfulAds =
     (if length successfulAds < 5 then (None, r)
      else
        (let adContents =
               filter (\<lambda>text. text \<noteq> [] \<and> length (trim text) > 0)
                 (map (\<lambda>a. join '' '' (filter (\<lambda>t. t \<noteq> []) (creative_texts a))) successfulAds)
         in if length adContents < 5 then (None, r)
            else
              (let commonTerms' = extractCommonTerms (stopwords lib) (documentTerms lib adContents);
                   structurePatterns' = analyzeAdStructure lib successfulAds;
                   visualPatterns' = analyzeVisualElements successfulAds;
                   patterns' = \<lparr>commonTerms = commonTerms', structurePatterns = structurePatterns',
                                visualPatterns = visualPatterns', updatedAt = clock\<rparr>
               in (case redis_set r patterns' of
                     Inr r' \<Rightarrow> (Some patterns', r')
                   | Inl redisError \<Rightarrow> (Some patterns', r)))))"

subsection \<open>\<open>getSuccessPatterns\<close>\<close>

text \<open>
  The answer is a cached report or the explicitly empty report with its time stamp. The
  \<open>catch\<close> of \<open>getSuccessPatterns\<close> logs the error and throws it again. The second argument
  is the outcome of reading the successful ads from the database.
\<close>

datatype pattern_report = Report patterns | EmptyReport real

definition getSuccessPatterns ::
  "analysis \<Rightarrow> js_error + successful_ad list \<Rightarrow> real \<Rightarrow> redis \<Rightarrow> (js_error + pattern_report) \<times> redis" where
  "getSuccessPatterns lib SuccessfulAdModel_find clock r =
     (case redis_get r of
        Inl error \<Rightarrow> (Inl error, r)
      | Inr (Some cachedPatterns) \<Rightarrow> (Inr (Report cachedPatterns), r)
      | Inr None \<Rightarrow>
          (case SuccessfulAdModel_find of
             Inl error \<Rightarrow> (Inl error, r)
           | Inr recentSuccessfulAds \<Rightarrow>
               if length recentSuccessfulAds > 0 then
                 (let ads = map adData recentSuccessfulAds;
                      r' = analyzeSuccessPatterns_v1 lib clock r ads
                  in (case redis_get r' of
                        Inl error \<Rightarrow> (Inl error, r')
                      | Inr (Some newlyCachedPatterns) \<Rightarrow> (Inr (Report newlyCachedPatterns), r')
                      | Inr None \<Rightarrow> (Inr (EmptyReport clock), r')))
               else (Inr (EmptyReport clock), r)))"

section \<open>Sample data\<close>

text \<open>
  An ad that started at time 0 and is still running, and two states of the score
  collection at time \<open>1000\<close>: one where every lookup rejects, and one where the lookup of
  the ad \<open>bad\<close> rejects while every other ad has a score of 85 stored at time 0.
\<close>

definition sample_ad :: "string \<Rightarrow> raw_ad" where
  "sample_ad i =
     \<lparr>ad_id = i,
      ad_delivery_start_time = Num 0,
      ad_delivery_stop_time = None,
      spend = Str ''1000-2000'',
      raw_ad.impressions = Str ''50000-100000'',
      ad_creative_bodies = Some [''Shop now'', ''Big sale''],
      ad_creative_link_titles = None,
      ad_creative_link_descriptions = None,
      demographic_distribution = None\<rparr>"

definition sample_scores :: component_scores where
  "sample_scores =
     \<lparr>durationScore = 20, spendScore = 20, impressionsScore = 20, engagementScore = 25\<rparr>"

definition failing_database :: database where
  "failing_database =
     \<lparr>Date_now = 1000,
      AdScoreModel_findOne = (\<lambda>i. Inl DatabaseError),
      AdScoreModel_findOneAndUpdate = (\<lambda>i. Inr ()),
      SuccessfulAdModel_bulkWrite = Inr ()\<rparr>"

definition sample_database :: database where
  "sample_database =
     \<lparr>Date_now = 1000,
      AdScoreModel_findOne =
        (\<lambda>i. if i = ''bad'' then Inl DatabaseError
             else Inr (Some \<lparr>totalScore = 85, score_doc.componentScores = sample_scores,
                             score_doc.updatedAt = 0\<rparr>)),
      AdScoreModel_findOneAndUpdate = (\<lambda>i. Inr ()),
      SuccessfulAdModel_bulkWrite = Inr ()\<rparr>"

definition empty_database :: database where
  "empty_database =
     \<lparr>Date_now = 1000,
      AdScoreModel_findOne = (\<lambda>i. Inr None),
      AdScoreModel_findOneAndUpdate = (\<lambda>i. Inr ()),
      SuccessfulAdModel_bulkWrite = Inr ()\<rparr>"

text \<open>
  Term lists of three documents, an analysis library that finds no terms, an ad without
  any text, and two states of the pattern cache, both empty: one that answers and one
  that cannot be reached.
\<close>

definition sample_documents :: "term_item list list" where
  "sample_documents =
     [[\<lparr>term_item.term = ''shop'', tfidf = 2\<rparr>, \<lparr>term_item.term = ''sale'', tfidf = 1\<rparr>],
      [\<lparr>term_item.term = ''sale'', tfidf = 3\<rparr>, \<lparr>term_item.term = ''shop'', tfidf = 1\<rparr>,
       \<lparr>term_item.term = ''the'', tfidf = 1\<rparr>],
      [\<lparr>term_item.term = ''Shop'', tfidf = 2\<rparr>, \<lparr>term_item.term = ''2024'', tfidf = 1\<rparr>]]"

text \<open>
  Two documents in which rounding decides the ranking: the weights of \<open>aaa\<close> are 1 and
  \<open>2 powi (- 53)\<close>, whose sum rounds to 1, so that \<open>aaa\<close> and \<open>bbb\<close> have the same average
  and keep the order in which they were met.
\<close>

definition rounding_documents :: "term_item list list" where
  "rounding_documents =
     [[\<lparr>term_item.term = ''bbb'', tfidf = 1 / 2\<rparr>, \<lparr>term_item.term = ''aaa'', tfidf = 1\<rparr>],
      [\<lparr>term_item.term = ''bbb'', tfidf = 1 / 2\<rparr>,
       \<lparr>term_item.term = ''aaa'', tfidf = 1 / 2 ^ 53\<rparr>]]"

definition sample_library :: analysis where
  "sample_library =
     \<lparr>stopwords = [''the''],
      listTerms = (\<lambda>texts i. []),
      analyzeAdStructure =
        (\<lambda>ads. \<lparr>averageTextLength = 0, ctaPresenceRate = 0,
                 questionPresenceRate = 0, emojiPresenceRate = 0\<rparr>)\<rparr>"

definition textless_ad :: "string \<Rightarrow> scored_ad" where
  "textless_ad i =
     \<lparr>ad = (sample_ad i)\<lparr>ad_creative_bodies := None\<rparr>,
      scored_ad.successScore = 85,
      scored_ad.componentScores = sample_scores\<rparr>"

definition empty_redis :: redis where
  "empty_redis = \<lparr>get_fails = False, set_fails = False, ad_success_patterns = None\<rparr>"

definition unreachable_redis :: redis where
  "unreachable_redis = \<lparr>get_fails = True, set_fails = True, ad_success_patterns = None\<rparr>"

section \<open>The engagement score as a function of the rate\<close>

text \<open>
  \<open>calculateEngagementScore\<close> reads two fields of the metrics and scores their quotient;
  with one impression the quotient is the estimated engagement itself.
\<close>

definition engagementScoreOfRate :: "real \<Rightarrow> jsnum" where
  "engagementScoreOfRate rate =
     calculateEngagementScore
       \<lparr>durationDays = 1, spendAmount = 0, metrics.impressions = 1,
        estimatedEngagement = Num rate, dailySpend = 0, dailyImpressions = 1\<rparr>"

section \<open>Arithmetic of JavaScript numbers on numerals\<close>

lemma numeral_jsnum [simp]: "(numeral k :: jsnum) = Num (numeral k)"
  by (induction k) (simp_all only: numeral.simps one_jsnum_def plus_jsnum.simps)

lemma zero_jsnum [simp]: "(0 :: jsnum) = Num 0"
  by (simp add: zero_jsnum_def)

lemma one_jsnum [simp]: "(1 :: jsnum) = Num 1"
  by (simp add: one_jsnum_def)

lemma power_jsnum [simp]: "Num a ^ n = Num (a ^ n)"
  by (induction n) simp_all

section \<open>Rounding to doubles\<close>

text \<open>
  Rounding to the nearest integer is monotone and leaves integers as they are; hence
  \<open>double\<close> is monotone on the non-negative reals, exact on the integers below \<open>2\<^sup>5\<^sup>3\<close>,
  keeps the sign of a difference of two doubles, and can be evaluated once the binade of
  its argument is known.
\<close>

lemma rne_of_int [simp]: "rne (of_int n) = n"
  by (simp add: rne_def)

lemma rne_near: "\<bar>of_int (rne x) - x\<bar> \<le> 1 / 2"
  unfolding rne_def Let_def by (auto; linarith)

lemma rne_lower: "x - 1 / 2 \<le> of_int (rne x)" and rne_upper: "of_int (rne x) \<le> x + 1 / 2"
  using rne_near [of x] by linarith+

lemma rne_mono:
  assumes "x \<le> y"
  shows "rne x \<le> rne y"
proof (rule ccontr)
  assume "\<not> rne x \<le> rne y"
  then have gt: "rne y + 1 \<le> rne x" by simp
  then have "of_int (rne y) + 1 \<le> (of_int (rne x) :: real)"
    by (metis of_int_1 of_int_add of_int_le_iff)
  with rne_upper [of x] rne_lower [of y] assms
  have "x = y" by linarith
  with gt show False by simp
qed

lemma rne_int_le: "of_int n \<le> x \<Longrightarrow> n \<le> rne x"
  using rne_mono [of "of_int n" x] by simp

lemma rne_le_int: "x \<le> of_int n \<Longrightarrow> rne x \<le> n"
  using rne_mono [of x "of_int n"] by simp

lemma two_powr_int: "2 powr real_of_int n = (2 :: real) powi n"
  by (simp add: powr_real_of_int')

lemma floor_log2_iff:
  assumes "0 < x"
  shows "\<lfloor>log 2 x\<rfloor> = k \<longleftrightarrow> 2 powi k \<le> x \<and> x < 2 powi (k + 1)"
proof -
  have "real_of_int k + 1 = real_of_int (k + 1)" by simp
  then have "2 powr (real_of_int k + 1) = (2 :: real) powi (k + 1)"
    using two_powr_int [of "k + 1"] by presburger
  with floor_log_eq_powr_iff [of x 2 k] assms show ?thesis
    by (simp add: two_powr_int)
qed

lemma binade_eq:
  assumes "2 powi e \<le> \<bar>x\<bar>" and "\<bar>x\<bar> < 2 powi (e + 1)" and "emin \<le> e"
  shows "binade x = e"
proof -
  have "(0 :: real) < 2 powi e" by simp
  with assms(1) have pos: "0 < \<bar>x\<bar>" by linarith
  have "\<lfloor>log 2 \<bar>x\<bar>\<rfloor> = e"
    using assms(1,2) floor_log2_iff [OF pos, of e] by blast
  with assms(3) show ?thesis by (simp add: binade_def)
qed

lemma binade_upper:
  assumes "x \<noteq> 0"
  shows "\<bar>x\<bar> < 2 powi (binade x + 1)"
proof -
  define k where "k = \<lfloor>log 2 \<bar>x\<bar>\<rfloor>"
  have pos: "0 < \<bar>x\<bar>" using assms by simp
  have "\<bar>x\<bar> < 2 powi (k + 1)"
    using floor_log2_iff [OF pos, of k] by (simp add: k_def)
  also have "\<dots> \<le> 2 powi (binade x + 1)"
    by (rule power_int_increasing) (simp_all add: binade_def k_def)
  finally show ?thesis .
qed

lemma binade_lower:
  assumes "x \<noteq> 0" and "emin < binade x"
  shows "2 powi binade x \<le> \<bar>x\<bar>"
proof -
  define k where "k = \<lfloor>log 2 \<bar>x\<bar>\<rfloor>"
  have pos: "0 < \<bar>x\<bar>" using assms by simp
  from assms(2) have "binade x = k" by (simp add: binade_def k_def max_def split: if_splits)
  moreover have "2 powi k \<le> \<bar>x\<bar>"
    using floor_log2_iff [OF pos, of k] by (simp add: k_def)
  ultimately show ?thesis by simp
qed

lemma binade_mono:
  assumes "x \<noteq> 0" and "\<bar>x\<bar> \<le> \<bar>y\<bar>"
  shows "binade x \<le> binade y"
proof -
  have "log 2 \<bar>x\<bar> \<le> log 2 \<bar>y\<bar>" using assms by simp
  then have "\<lfloor>log 2 \<bar>x\<bar>\<rfloor> \<le> \<lfloor>log 2 \<bar>y\<bar>\<rfloor>" by (rule floor_mono)
  then show ?thesis by (simp add: binade_def)
qed

text \<open>Evaluation with a known binade.\<close>

lemma double_eval:
  assumes "2 powi e \<le> \<bar>x\<bar>" and "\<bar>x\<bar> < 2 powi (e + 1)" and "emin \<le> e"
  shows "double x = of_int (rne (x / 2 powi (e - 52))) * 2 powi (e - 52)"
proof -
  have "(0 :: real) < 2 powi e" by simp
  with assms(1) have "0 < \<bar>x\<bar>" by linarith
  then have "x \<noteq> 0" by simp
  then show ?thesis by (simp add: double_def binade_eq [OF assms])
qed

lemma double_nonneg: "0 \<le> x \<Longrightarrow> 0 \<le> double x"
  using rne_int_le [of 0 "x / 2 powi (binade x - 52)"]
  by (simp add: double_def)

lemma double_mono_pos:
  assumes "0 < x" and "x \<le> y"
  shows "double x \<le> double y"
proof (cases "binade x = binade y")
  case True
  have "x / 2 powi (binade y - 52) \<le> y / 2 powi (binade y - 52)"
    using assms by (simp add: divide_right_mono)
  then have "rne (x / 2 powi (binade y - 52)) \<le> rne (y / 2 powi (binade y - 52))"
    by (rule rne_mono)
  then have "real_of_int (rne (x / 2 powi (binade y - 52)))
               \<le> real_of_int (rne (y / 2 powi (binade y - 52)))"
    by simp
  then show ?thesis
    using assms True by (simp add: double_def mult_right_mono)
next
  case False
  with binade_mono [of x y] assms have less: "binade x < binade y" by simp
  have x0: "x \<noteq> 0" and y0: "y \<noteq> 0" using assms by auto
  define p :: int where "p = 52"
  have split: "(2 :: real) powi (a + b) = 2 powi a * 2 powi b" for a b :: int
    by (simp add: power_int_add)
  have ux: "2 powi (binade x + 1) = (2 :: real) powi (p + 1) * 2 powi (binade x - p)"
    using split [of "p + 1" "binade x - p"] by (simp add: add.commute)
  have uy: "2 powi binade y = (2 :: real) powi p * 2 powi (binade y - p)"
    using split [of p "binade y - p"] by (simp add: add.commute)
  have int_pow: "(2 :: real) powi (p + 1) = of_int (2 ^ 53)" "(2 :: real) powi p = of_int (2 ^ 52)"
    by (simp_all add: p_def)
  have "x < 2 powi (p + 1) * 2 powi (binade x - p)"
    using binade_upper [OF x0] assms ux by simp
  then have "x / 2 powi (binade x - p) \<le> 2 powi (p + 1)"
    by (simp add: pos_divide_le_eq)
  then have "rne (x / 2 powi (binade x - p)) \<le> 2 ^ 53"
    unfolding int_pow by (rule rne_le_int)
  then have "real_of_int (rne (x / 2 powi (binade x - p))) \<le> of_int (2 ^ 53)"
    by (simp only: of_int_le_iff)
  then have "double x \<le> 2 powi (p + 1) * 2 powi (binade x - p)"
    unfolding int_pow using x0 by (simp add: double_def p_def mult_right_mono)
  also have "\<dots> = 2 powi (binade x + 1)" by (simp only: ux)
  also have "\<dots> \<le> 2 powi binade y"
    using less by (intro power_int_increasing) simp_all
  also have "\<dots> \<le> double y"
  proof -
    from less have "emin < binade y" by (simp add: binade_def)
    from binade_lower [OF y0 this] assms
    have "2 powi p * 2 powi (binade y - p) \<le> y" by (simp add: uy)
    then have "2 powi p \<le> y / 2 powi (binade y - p)"
      by (simp add: pos_le_divide_eq)
    then have "2 ^ 52 \<le> rne (y / 2 powi (binade y - p))"
      unfolding int_pow by (rule rne_int_le)
    then have "of_int (2 ^ 52) \<le> real_of_int (rne (y / 2 powi (binade y - p)))"
      by (simp only: of_int_le_iff)
    then have "2 powi p * 2 powi (binade y - p) \<le> double y"
      unfolding int_pow using y0 by (simp add: double_def p_def mult_right_mono)
    then show ?thesis by (simp only: uy)
  qed
  finally show ?thesis .
qed

lemma double_mono:
  assumes "0 \<le> x" and "x \<le> y"
  shows "double x \<le> double y"
proof (cases "x = 0")
  case True
  with assms double_nonneg [of y] show ?thesis by (simp add: double_def)
next
  case False
  with assms double_mono_pos [of x y] show ?thesis by simp
qed

lemma two_powi_add: "(2 :: real) powi (a + b) = 2 powi a * 2 powi b"
  by (simp add: power_int_add)

lemma binade_ge: "emin \<le> binade x"
  by (simp add: binade_def)

lemma double_on_grid: "on_grid (double x)"
proof (cases "x = 0")
  case True
  then have "double x = of_int 0 * 2 powi (emin - 52)" by (simp add: double_def)
  then show ?thesis unfolding on_grid_def by blast
next
  case False
  define n where "n = nat (binade x - emin)"
  have "binade x - 52 = int n + (emin - 52)"
    using binade_ge [of x] by (simp add: n_def)
  then have "(2 :: real) powi (binade x - 52) = 2 powi (int n + (emin - 52))"
    by (simp only:)
  also have "\<dots> = 2 powi int n * 2 powi (emin - 52)"
    by (rule two_powi_add)
  finally have "(2 :: real) powi (binade x - 52) = 2 ^ n * 2 powi (emin - 52)"
    by simp
  then have "double x = of_int (rne (x / 2 powi (binade x - 52)) * 2 ^ n) * 2 powi (emin - 52)"
    using False by (simp add: double_def)
  then show ?thesis unfolding on_grid_def by blast
qed

lemma on_grid_diff:
  assumes "on_grid x" and "on_grid y"
  shows "on_grid (x - y)"
proof -
  from assms obtain k l :: int
    where "x = of_int k * 2 powi (emin - 52)" "y = of_int l * 2 powi (emin - 52)"
    unfolding on_grid_def by blast
  then have "x - y = of_int (k - l) * 2 powi (emin - 52)"
    by (simp add: algebra_simps)
  then show ?thesis unfolding on_grid_def by blast
qed

lemma on_grid_of_int: "on_grid (of_int n)"
proof -
  define m where "m = nat (52 - emin)"
  have "int m + (emin - 52) = 0" by (simp add: m_def emin_def)
  then have "(2 :: real) ^ m * 2 powi (emin - 52) = 1"
    using two_powi_add [of "int m" "emin - 52"] by simp
  then have "real_of_int n = of_int (n * 2 ^ m) * 2 powi (emin - 52)"
    by (simp add: mult.assoc)
  then show ?thesis unfolding on_grid_def by blast
qed

lemma double_least: "double (2 powi (emin - 52)) = 2 powi (emin - 52)"
proof -
  let ?x = "(2 :: real) powi (emin - 52)"
  have pos: "0 < \<bar>?x\<bar>" by simp
  have "?x < 2 powi (emin - 52 + 1)"
    by (intro power_int_strict_increasing) simp_all
  then have "\<lfloor>log 2 \<bar>?x\<bar>\<rfloor> = emin - 52"
    using floor_log2_iff [OF pos, of "emin - 52"] by simp
  then have "binade ?x = emin" by (simp add: binade_def)
  moreover have "?x \<noteq> 0" by simp
  ultimately have "double ?x = of_int (rne (?x / 2 powi (emin - 52))) * 2 powi (emin - 52)"
    unfolding double_def by presburger
  also have "?x / 2 powi (emin - 52) = of_int 1" by simp
  finally show ?thesis using rne_of_int [of 1] by simp
qed

lemma double_pos:
  assumes "on_grid z" and "0 < z"
  shows "0 < double z"
proof -
  from assms obtain k :: int where z: "z = of_int k * 2 powi (emin - 52)"
    unfolding on_grid_def by blast
  have "\<not> (2 :: real) powi (emin - 52) < 0" by (simp add: not_less)
  with assms(2) have "0 < real_of_int k"
    unfolding z zero_less_mult_iff by blast
  then have "1 \<le> real_of_int k" by simp
  then have "1 * 2 powi (emin - 52) \<le> z"
    unfolding z by (intro mult_right_mono) simp_all
  then have "2 powi (emin - 52) \<le> z" by simp
  then have "double (2 powi (emin - 52)) \<le> double z"
    by (intro double_mono) simp_all
  then have "2 powi (emin - 52) \<le> double z" by (simp only: double_least)
  moreover have "(0 :: real) < 2 powi (emin - 52)" by simp
  ultimately show ?thesis by linarith
qed

lemma double_nonpos:
  assumes "z \<le> 0"
  shows "double z \<le> 0"
proof (cases "z = 0")
  case True
  then show ?thesis by (simp add: double_def)
next
  case False
  have "z / 2 powi (binade z - 52) \<le> of_int 0"
    using assms by (simp add: divide_le_0_iff)
  then have "rne (z / 2 powi (binade z - 52)) \<le> 0" by (rule rne_le_int)
  then have "real_of_int (rne (z / 2 powi (binade z - 52))) \<le> 0" by simp
  then show ?thesis
    using False by (simp add: double_def mult_le_0_iff)
qed

lemma double_sign:
  assumes "on_grid z"
  shows "double z \<le> 0 \<longleftrightarrow> z \<le> 0"
  using double_pos [OF assms] double_nonpos [of z] by fastforce

lemma double_of_int:
  assumes "\<bar>n\<bar> < 2 ^ 53"
  shows "double (of_int n) = of_int n"
proof (cases "n = 0")
  case True
  then show ?thesis by (simp add: double_def)
next
  case False
  define x :: real where "x = of_int n"
  define b where "b = binade x"
  define p :: int where "p = 52"
  have x0: "x \<noteq> 0" using False by (simp add: x_def)
  have "real_of_int \<bar>n\<bar> < of_int (2 ^ 53)"
    using assms by (simp only: of_int_less_iff)
  then have small: "\<bar>x\<bar> < 2 powi (p + 1)"
    by (simp add: x_def p_def)
  have le: "b \<le> p"
  proof (rule ccontr)
    assume "\<not> b \<le> p"
    then have "emin < b" "p + 1 \<le> b" by (simp_all add: emin_def p_def)
    with binade_lower [OF x0] have "2 powi b \<le> \<bar>x\<bar>" by (simp add: b_def)
    moreover have "(2 :: real) powi (p + 1) \<le> 2 powi b"
      using \<open>p + 1 \<le> b\<close> by (intro power_int_increasing) simp_all
    ultimately show False using small by linarith
  qed
  define m where "m = nat (p - b)"
  have "b - p + int m = 0" using le by (simp add: m_def)
  then have inv: "(2 :: real) powi (b - p) * 2 ^ m = 1"
    using two_powi_add [of "b - p" "int m"] by simp
  then have "x / 2 powi (b - p) = x * 2 ^ m"
    by (simp add: field_simps)
  also have "\<dots> = of_int (n * 2 ^ m)" by (simp add: x_def)
  finally have "rne (x / 2 powi (b - p)) = n * 2 ^ m" by (simp only: rne_of_int)
  then have "double x = of_int (n * 2 ^ m) * 2 powi (b - p)"
    using x0 by (simp add: double_def b_def p_def)
  also have "\<dots> = x * (2 powi (b - p) * 2 ^ m)" by (simp add: x_def)
  finally show ?thesis using inv by (simp add: x_def)
qed

lemma double_numeral: "numeral k < (2 :: int) ^ 53 \<Longrightarrow> double (numeral k) = numeral k"
  using double_of_int [of "numeral k"] by simp




section \<open>The range parser\<close>

lemmas parse_defs =
  parseSpendRange_def parseInt_def isDigit_def isWhiteSpace_def digitsValue_def digitValue_def

text \<open>
  Claim C6. The range parser gives 300 on \<open>100-500\<close> (the midpoint), 50 on \<open><100\<close>, 1500
  on \<open>>1000\<close>, 250 on \<open>250\<close>, and 0 on the empty string and on a missing input.
\<close>

theorem parseSpendRange_examples:
  "parseSpendRange (Str ''100-500'') = Num 300 \<and>
   parseSpendRange (Str ''<100'') = Num 50 \<and>
   parseSpendRange (Str ''>1000'') = Num 1500 \<and>
   parseSpendRange (Str ''250'') = Num 250 \<and>
   parseSpendRange (Str []) = Num 0 \<and>
   parseSpendRange Undefined = Num 0"
  by (simp add: parse_defs)

text \<open>
  Claim C3 says that an unparsable string such as \<open>N/A\<close> is parsed to 0. No digit is left
  of \<open>N/A\<close>, \<open>parseInt\<close> of the empty string is \<open>NaN\<close> and throws nothing, so the \<open>catch\<close>
  that returns 0 is not reached: the parser returns \<open>NaN\<close>, and the spend score of \<open>NaN\<close>
  is \<open>NaN\<close>.
\<close>

theorem parseSpendRange_unparsable_is_NaN:
  "parseSpendRange (Str ''N/A'') = NaN \<and>
   calculateSpendScore (parseSpendRange (Str ''N/A'')) = NaN"
  by (simp add: parse_defs calculateSpendScore_def)

section \<open>The total score\<close>







section \<open>The four tier functions on real inputs\<close>

text \<open>
  On a real input each tier function is a sum of four clamped linear pieces, one for each
  tier; monotonicity, the bounds and continuity are read off that form.
\<close>

lemma calculateDurationScore_pieces:
  "calculateDurationScore (Num x) =
     Num (5 / 7 * min 7 (max 0 x) + 5 / 7 * (min 14 (max 7 x) - 7)
          + 5 / 16 * (min 30 (max 14 x) - 14) + 1 / 3 * (min 60 (max 30 x) - 30))"
  by (simp add: calculateDurationScore_def min_def max_def field_simps)

lemma calculateSpendScore_pieces:
  "calculateSpendScore (Num x) =
     Num (1 / 20 * min 100 (max 0 x) + 1 / 80 * (min 500 (max 100 x) - 100)
          + 1 / 100 * (min 1000 (max 500 x) - 500)
          + 1 / 400 * (min 5000 (max 1000 x) - 1000))"
  by (simp add: calculateSpendScore_def min_def max_def field_simps)

lemma calculateImpressionsScore_pieces:
  "calculateImpressionsScore (Num x) =
     Num (1 / 2000 * min 10000 (max 0 x) + 1 / 8000 * (min 50000 (max 10000 x) - 10000)
          + 1 / 10000 * (min 100000 (max 50000 x) - 50000)
          + 1 / 40000 * (min 500000 (max 100000 x) - 100000))"
  by (simp add: calculateImpressionsScore_def min_def max_def field_simps)

lemma engagementScoreOfRate_pieces:
  "engagementScoreOfRate x =
     Num (500 * min 0.01 (max 0 x) + 250 * (min 0.03 (max 0.01 x) - 0.01)
          + 250 * (min 0.05 (max 0.03 x) - 0.03) + 200 * (min 0.10 (max 0.05 x) - 0.05))"
  by (simp add: engagementScoreOfRate_def calculateEngagementScore_def min_def max_def
        field_simps)

lemmas tier_pieces =
  calculateDurationScore_pieces calculateSpendScore_pieces
  calculateImpressionsScore_pieces engagementScoreOfRate_pieces

lemma calculateEngagementScore_rate:
  assumes "0 < i"
  shows "calculateEngagementScore
           \<lparr>durationDays = dd, spendAmount = sa, metrics.impressions = Num i,
            estimatedEngagement = Num e, dailySpend = ds, dailyImpressions = di\<rparr>
         = engagementScoreOfRate (e / i)"
  using assms by (simp add: engagementScoreOfRate_def calculateEngagementScore_def)

lemma calculateEngagementScore_no_impressions:
  "calculateEngagementScore
     \<lparr>durationDays = dd, spendAmount = sa, metrics.impressions = Num 0,
      estimatedEngagement = e, dailySpend = ds, dailyImpressions = di\<rparr> = Num 0"
  by (simp add: calculateEngagementScore_def)

lemma tier_values:
  "calculateDurationScore (Num x) = Num (valueOf (calculateDurationScore (Num x)))"
  "calculateSpendScore (Num x) = Num (valueOf (calculateSpendScore (Num x)))"
  "calculateImpressionsScore (Num x) = Num (valueOf (calculateImpressionsScore (Num x)))"
  "engagementScoreOfRate x = Num (valueOf (engagementScoreOfRate x))"
  by (simp_all only: tier_pieces valueOf.simps)

lemma tier_mono:
  assumes "x \<le> y"
  shows "valueOf (calculateDurationScore (Num x)) \<le> valueOf (calculateDurationScore (Num y))"
    and "valueOf (calculateSpendScore (Num x)) \<le> valueOf (calculateSpendScore (Num y))"
    and "valueOf (calculateImpressionsScore (Num x))
           \<le> valueOf (calculateImpressionsScore (Num y))"
    and "valueOf (engagementScoreOfRate x) \<le> valueOf (engagementScoreOfRate y)"
  unfolding tier_pieces valueOf.simps using assms
  by (intro add_mono mult_left_mono diff_right_mono min.mono max.mono order_refl; simp)+

lemma tier_lower:
  "0 \<le> valueOf (calculateDurationScore (Num x))"
  "0 \<le> valueOf (calculateSpendScore (Num x))"
  "0 \<le> valueOf (calculateImpressionsScore (Num x))"
  "0 \<le> valueOf (engagementScoreOfRate x)"
  unfolding tier_pieces valueOf.simps by (simp_all add: min_def max_def)

lemma tier_upper:
  "valueOf (calculateDurationScore (Num x)) \<le> 25"
  "valueOf (calculateSpendScore (Num x)) \<le> 25"
  "valueOf (calculateImpressionsScore (Num x)) \<le> 25"
  "valueOf (engagementScoreOfRate x) \<le> 25"
  unfolding tier_pieces valueOf.simps by (simp_all add: min_def max_def)

lemma tier_continuous:
  "isCont (\<lambda>t. valueOf (calculateDurationScore (Num t))) c"
  "isCont (\<lambda>t. valueOf (calculateSpendScore (Num t))) c"
  "isCont (\<lambda>t. valueOf (calculateImpressionsScore (Num t))) c"
  "isCont (\<lambda>t. valueOf (engagementScoreOfRate t)) c"
  unfolding tier_pieces valueOf.simps by (intro continuous_intros)+

lemma tier_saturation:
  "60 \<le> x \<Longrightarrow> calculateDurationScore (Num x) = Num 25"
  "5000 \<le> x \<Longrightarrow> calculateSpendScore (Num x) = Num 25"
  "500000 \<le> x \<Longrightarrow> calculateImpressionsScore (Num x) = Num 25"
  "0.10 \<le> x \<Longrightarrow> engagementScoreOfRate x = Num 25"
  by (simp_all add: calculateDurationScore_def calculateSpendScore_def
        calculateImpressionsScore_def engagementScoreOfRate_def calculateEngagementScore_def)

lemma tier_zero:
  "calculateDurationScore (Num 0) = Num 0"
  "calculateSpendScore (Num 0) = Num 0"
  "calculateImpressionsScore (Num 0) = Num 0"
  "engagementScoreOfRate 0 = Num 0"
  by (simp_all add: calculateDurationScore_def calculateSpendScore_def
        calculateImpressionsScore_def engagementScoreOfRate_def calculateEngagementScore_def)

text \<open>
  Claim C5. On non-negative real inputs \<open>x \<le> y\<close> each of the four tier functions
  (duration, spend, impressions, engagement rate) gives real values between 0 and 25 that
  do not decrease from \<open>x\<close> to \<open>y\<close>; each is continuous at every point \<open>c\<close>, so at every
  tier boundary; each is 25 from its saturation threshold on (60 days, 5000 of spend,
  500000 impressions, a rate of 0.10) and 0 at 0. With a positive number of impressions
  the engagement score of the metrics is the score of the rate
  \<open>estimatedEngagement / impressions\<close>.
\<close>

theorem tier_functions_monotone_bounded_continuous:
  fixes x y c i e :: real
  assumes "0 \<le> x" and "x \<le> y" and "0 < i"
  shows
    "(\<exists>a b. calculateDurationScore (Num x) = Num a \<and> calculateDurationScore (Num y) = Num b
         \<and> 0 \<le> a \<and> a \<le> b \<and> b \<le> 25)
   \<and> (\<exists>a b. calculateSpendScore (Num x) = Num a \<and> calculateSpendScore (Num y) = Num b
         \<and> 0 \<le> a \<and> a \<le> b \<and> b \<le> 25)
   \<and> (\<exists>a b. calculateImpressionsScore (Num x) = Num a \<and> calculateImpressionsScore (Num y) = Num b
         \<and> 0 \<le> a \<and> a \<le> b \<and> b \<le> 25)
   \<and> (\<exists>a b. engagementScoreOfRate x = Num a \<and> engagementScoreOfRate y = Num b
         \<and> 0 \<le> a \<and> a \<le> b \<and> b \<le> 25)
   \<and> isCont (\<lambda>t. valueOf (calculateDurationScore (Num t))) c
   \<and> isCont (\<lambda>t. valueOf (calculateSpendScore (Num t))) c
   \<and> isCont (\<lambda>t. valueOf (calculateImpressionsScore (Num t))) c
   \<and> isCont (\<lambda>t. valueOf (engagementScoreOfRate t)) c
   \<and> (60 \<le> y \<longrightarrow> calculateDurationScore (Num y) = Num 25)
   \<and> (5000 \<le> y \<longrightarrow> calculateSpendScore (Num y) = Num 25)
   \<and> (500000 \<le> y \<longrightarrow> calculateImpressionsScore (Num y) = Num 25)
   \<and> (0.10 \<le> y \<longrightarrow> engagementScoreOfRate y = Num 25)
   \<and> calculateDurationScore (Num 0) = Num 0
   \<and> calculateSpendScore (Num 0) = Num 0
   \<and> calculateImpressionsScore (Num 0) = Num 0
   \<and> engagementScoreOfRate 0 = Num 0
   \<and> calculateEngagementScore
         \<lparr>durationDays = dd, spendAmount = sa, metrics.impressions = Num i,
          estimatedEngagement = Num e, dailySpend = ds, dailyImpressions = di\<rparr>
       = engagementScoreOfRate (e / i)"
proof -
  have "\<exists>a b. calculateDurationScore (Num x) = Num a \<and> calculateDurationScore (Num y) = Num b
         \<and> 0 \<le> a \<and> a \<le> b \<and> b \<le> 25"
    using tier_values(1) tier_lower(1) tier_mono(1) [OF assms(2)] tier_upper(1) by blast
  moreover have "\<exists>a b. calculateSpendScore (Num x) = Num a \<and> calculateSpendScore (Num y) = Num b
         \<and> 0 \<le> a \<and> a \<le> b \<and> b \<le> 25"
    using tier_values(2) tier_lower(2) tier_mono(2) [OF assms(2)] tier_upper(2) by blast
  moreover have "\<exists>a b. calculateImpressionsScore (Num x) = Num a
         \<and> calculateImpressionsScore (Num y) = Num b \<and> 0 \<le> a \<and> a \<le> b \<and> b \<le> 25"
    using tier_values(3) tier_lower(3) tier_mono(3) [OF assms(2)] tier_upper(3) by blast
  moreover have "\<exists>a b. engagementScoreOfRate x = Num a \<and> engagementScoreOfRate y = Num b
         \<and> 0 \<le> a \<and> a \<le> b \<and> b \<le> 25"
    using tier_values(4) tier_lower(4) tier_mono(4) [OF assms(2)] tier_upper(4) by blast
  moreover note tier_continuous [of c] tier_saturation [of y] tier_zero
    calculateEngagementScore_rate [OF assms(3), of dd sa e ds di]
  ultimately show ?thesis by blast
qed

theorem tier_functions_witness:
  "(0 :: real) \<le> 45 \<and> (45 :: real) \<le> 600000 \<and> (0 :: real) < 2
   \<and> calculateDurationScore (Num 45) = Num 20
   \<and> calculateDurationScore (Num 600000) = Num 25
   \<and> calculateSpendScore (Num 600000) = Num 25
   \<and> calculateImpressionsScore (Num 600000) = Num 25
   \<and> engagementScoreOfRate 600000 = Num 25
   \<and> isCont (\<lambda>t. valueOf (calculateSpendScore (Num t))) 100
   \<and> calculateEngagementScore
         \<lparr>durationDays = 45, spendAmount = 1500, metrics.impressions = Num 2,
          estimatedEngagement = Num 1, dailySpend = 1, dailyImpressions = 1\<rparr>
       = engagementScoreOfRate (1 / 2)"
  using tier_functions_monotone_bounded_continuous [of 45 600000 2 100 45 1500 1 1 1]
  by (simp add: calculateDurationScore_def)

section \<open>Metric extraction\<close>

text \<open>
  The two methods satisfy the equations of the source: each starts by calling the other
  on the same ad.
\<close>

lemma extractMetrics_unfold:
  "extractMetrics clock a =
     (let startTime = ad_delivery_start_time a;
          endTime = (case ad_delivery_stop_time a of Some t \<Rightarrow> t | None \<Rightarrow> Num clock);
          durationDays' = Math_max 1 (Math_round ((endTime - startTime) / (1000 * 60 * 60 * 24)));
          spendAmount' = parseSpendRange (spend a);
          impressions' = parseImpressionRange (raw_ad.impressions a)
      in Option.bind (estimateEngagement clock a impressions')
           (\<lambda>estimatedEngagement'.
              Some \<lparr>durationDays = durationDays',
                    spendAmount = spendAmount',
                    metrics.impressions = impressions',
                    estimatedEngagement = estimatedEngagement',
                    dailySpend = spendAmount' / durationDays',
                    dailyImpressions = impressions' / durationDays'\<rparr>))"
  unfolding extractMetrics_def estimateEngagement_def
  by (subst metric_calls.simps)
     (simp add: Let_def split: Option.bind_split metric_result.split)

lemma estimateEngagement_unfold:
  "estimateEngagement clock a impressions' =
     Option.bind (extractMetrics clock a)
       (\<lambda>extracted.
          let durationFactor = Math_min 1.5 (1 + (durationDays extracted / 30) * 0.5);
              demographicFactor =
                (case demographic_distribution a of
                   Some entries \<Rightarrow> Math_min 1.2 (1 + (Num (real (length entries)) / 10) * 0.2)
                 | None \<Rightarrow> 1);
              contentFactor =
                (case ad_creative_bodies a of
                   Some bodies \<Rightarrow>
                     Math_min 1.3 (1 + (Num (real (length (join '' '' bodies))) / 500) * 0.3)
                 | None \<Rightarrow> 1);
              avgCTR = 0.01;
              estimatedClicks =
                impressions' * avgCTR * durationFactor * demographicFactor * contentFactor;
              postEngagementRatio = 2.5;
              estimatedPostEngagements = estimatedClicks * postEngagementRatio
          in Some (estimatedClicks + estimatedPostEngagements))"
  unfolding extractMetrics_def estimateEngagement_def
  by (subst metric_calls.simps)
     (simp add: Let_def split: Option.bind_split metric_result.split)

text \<open>
  No call returns: a call returns only after the call it makes has returned, and every
  call makes one before anything else decides its result.
\<close>

lemma metric_calls_never_returns: "metric_calls clock c \<noteq> Some y"
proof
  assume returns: "metric_calls clock c = Some y"
  show False
  proof (rule metric_calls.raw_induct [where P = "\<lambda>_ _ _. False", OF _ returns], goal_cases)
    case (1 f clock' call y')
    from 1(1) have inner: "f n c' = None" for n c'
      by (cases "f n c'") auto
    from 1(2) show ?case
      by (cases call) (simp_all add: inner)
  qed
qed

lemma extractMetrics_never_returns: "extractMetrics clock a = None"
  by (cases "metric_calls clock (ExtractMetrics a)")
     (simp_all add: extractMetrics_def metric_calls_never_returns)

lemma estimateEngagement_never_returns: "estimateEngagement clock a i = None"
  by (cases "metric_calls clock (EstimateEngagement a i)")
     (simp_all add: estimateEngagement_def metric_calls_never_returns)

text \<open>
  Claim C1 says that metric extraction terminates on every raw ad and returns the
  estimated engagement. On the code neither \<open>extractMetrics\<close> nor \<open>estimateEngagement\<close>
  returns on any ad, at any time and for any number of impressions: \<open>estimateEngagement\<close>
  asks \<open>extractMetrics\<close> for \<open>durationDays\<close>, and \<open>extractMetrics\<close> asks
  \<open>estimateEngagement\<close> again.
\<close>

theorem extractMetrics_does_not_terminate:
  "extractMetrics clock a = None \<and> estimateEngagement clock a i = None
   \<and> extractMetrics 1000 (sample_ad ''1'') = None"
  by (simp add: extractMetrics_never_returns estimateEngagement_never_returns)

section \<open>Scoring one ad and a batch\<close>

lemma calculateScore_recompute_fails: "calculateScore_recompute db a = Inl RangeError"
  by (simp add: calculateScore_recompute_def extractMetrics_never_returns)

text \<open>
  The \<open>try\<close> block succeeds exactly on a stored score that is less than 24 hours old.
\<close>

lemma calculateScore_try_cases:
  "calculateScore_try db a =
     (case AdScoreModel_findOne db (ad_id a) of
        Inl error \<Rightarrow> Inl error
      | Inr None \<Rightarrow> Inl RangeError
      | Inr (Some existingScore) \<Rightarrow>
          if score_doc.updatedAt existingScore > Date_now db - 86400000
          then Inr \<lparr>ad = a, scored_ad.successScore = totalScore existingScore,
                    scored_ad.componentScores = score_doc.componentScores existingScore\<rparr>
          else Inl RangeError)"
  by (simp add: calculateScore_try_def calculateScore_recompute_fails
        split: sum.split option.split)

lemma calculateScore_resolves: "\<exists>scored. calculateScore db a = Inr scored"
  by (simp add: calculateScore_def split: sum.split)

lemma calculateScore_on_failure:
  "calculateScore_try db a = Inl err \<Longrightarrow> calculateScore db a = Inr (defaultScore a)"
  by (simp add: calculateScore_def)

lemma calculateScore_ad: "calculateScore db a = Inr scored \<Longrightarrow> ad scored = a"
  by (auto simp: calculateScore_def calculateScore_try_cases defaultScore_def
        split: sum.splits option.splits if_splits)

text \<open>A batch: every promise resolves, so \<open>Promise.all\<close> resolves.\<close>

lemma Promise_all_resolved:
  "(\<And>p. p \<in> set ps \<Longrightarrow> \<exists>v. p = Inr v) \<Longrightarrow> Promise_all ps = Inr (map projr ps)"
proof (induction ps)
  case Nil
  then show ?case by simp
next
  case (Cons p ps)
  from Cons.prems [of p] obtain v where "p = Inr v" by auto
  moreover have "Promise_all ps = Inr (map projr ps)"
    using Cons.IH Cons.prems by simp
  ultimately show ?case by simp
qed

lemma scoredAds_value:
  "Promise_all (map (\<lambda>a. calculateScore db a) ads)
     = Inr (map (\<lambda>a. projr (calculateScore db a)) ads)"
proof -
  have "Promise_all (map (\<lambda>a. calculateScore db a) ads)
          = Inr (map projr (map (\<lambda>a. calculateScore db a) ads))"
    by (rule Promise_all_resolved) (use calculateScore_resolves in auto)
  then show ?thesis by (simp add: comp_def)
qed

lemma processAds_value:
  "processAds db ads =
     Inr \<lparr>returned = filter (\<lambda>s. scored_ad.successScore s \<ge> MIN_SUCCESS_SCORE)
                         (map (\<lambda>a. projr (calculateScore db a)) ads),
          stored = storeSuccessfulAds db
                     (filter (\<lambda>s. scored_ad.successScore s \<ge> MIN_SUCCESS_SCORE)
                        (map (\<lambda>a. projr (calculateScore db a)) ads))\<rparr>"
  by (simp add: processAds_def scoredAds_value Let_def)

lemma failed_ad_is_filtered:
  assumes "calculateScore_try db bad = Inl err"
  shows "\<not> scored_ad.successScore (projr (calculateScore db bad)) \<ge> MIN_SUCCESS_SCORE"
  using calculateScore_on_failure [OF assms]
  by (simp add: defaultScore_def MIN_SUCCESS_SCORE_def)

text \<open>
  Claim C2. When a step of scoring an ad fails (the \<open>try\<close> block of \<open>calculateScore\<close> ends in
  an error), \<open>calculateScore\<close> still resolves, to the ad with a success score of 0 and four
  component scores of 0. A batch that contains such an ad is not aborted: \<open>processAds\<close>
  resolves, and to the same result as for the batch without that ad, so the other ads are
  scored as they would be without it.
\<close>

theorem calculateScore_failure_is_contained:
  assumes "calculateScore_try db bad = Inl err"
  shows "calculateScore db bad =
           Inr \<lparr>ad = bad, scored_ad.successScore = Num 0,
                scored_ad.componentScores =
                  \<lparr>durationScore = Num 0, spendScore = Num 0,
                   impressionsScore = Num 0, engagementScore = Num 0\<rparr>\<rparr>
       \<and> (\<exists>outcome. processAds db (before @ bad # after) = Inr outcome)
       \<and> processAds db (before @ bad # after) = processAds db (before @ after)"
proof -
  have "calculateScore db bad =
           Inr \<lparr>ad = bad, scored_ad.successScore = Num 0,
                scored_ad.componentScores =
                  \<lparr>durationScore = Num 0, spendScore = Num 0,
                   impressionsScore = Num 0, engagementScore = Num 0\<rparr>\<rparr>"
    using calculateScore_on_failure [OF assms] by (simp add: defaultScore_def)
  moreover have "\<exists>outcome. processAds db (before @ bad # after) = Inr outcome"
    by (simp add: processAds_value)
  moreover have "processAds db (before @ bad # after) = processAds db (before @ after)"
    using failed_ad_is_filtered [OF assms] by (simp add: processAds_value)
  ultimately show ?thesis by blast
qed

lemmas scoring_defs =
  calculateScore_def calculateScore_try_cases defaultScore_def MIN_SUCCESS_SCORE_def
  storeSuccessfulAds_def sample_database_def failing_database_def sample_ad_def

theorem calculateScore_failure_is_contained_witness:
  "calculateScore_try sample_database (sample_ad ''bad'') = Inl DatabaseError
   \<and> calculateScore sample_database (sample_ad ''bad'') =
           Inr \<lparr>ad = sample_ad ''bad'', scored_ad.successScore = Num 0,
                scored_ad.componentScores =
                  \<lparr>durationScore = Num 0, spendScore = Num 0,
                   impressionsScore = Num 0, engagementScore = Num 0\<rparr>\<rparr>
   \<and> processAds sample_database [sample_ad ''1'', sample_ad ''bad'', sample_ad ''2'']
       = processAds sample_database [sample_ad ''1'', sample_ad ''2'']
   \<and> map (\<lambda>s. (ad_id (ad s), scored_ad.successScore s))
        (returned (projr (processAds sample_database
           [sample_ad ''1'', sample_ad ''bad'', sample_ad ''2''])))
       = [(''1'', Num 85), (''2'', Num 85)]"
proof -
  have failure: "calculateScore_try sample_database (sample_ad ''bad'') = Inl DatabaseError"
    by (simp add: calculateScore_try_cases sample_database_def sample_ad_def)
  show ?thesis
    using calculateScore_failure_is_contained
            [OF failure, of "[sample_ad ''1'']" "[sample_ad ''2'']"] failure
    by (simp add: processAds_value scoring_defs)
qed

lemma storeSuccessfulAds_source:
  assumes "d \<in> set (storeSuccessfulAds db successfulAds)"
  shows "\<exists>s \<in> set successfulAds.
           successful_ad.successScore d = scored_ad.successScore s \<and> adData d = s"
proof -
  let ?operations = "map (\<lambda>a. \<lparr>adId = ad_id (ad a),
                       successful_ad.successScore = scored_ad.successScore a,
                       successful_ad.componentScores = scored_ad.componentScores a,
                       adData = a,
                       successful_ad.updatedAt = Date_now db\<rparr>) successfulAds"
  have "set (storeSuccessfulAds db successfulAds) \<subseteq> set ?operations"
    by (cases "SuccessfulAdModel_bulkWrite db"; cases "successfulAds = []")
       (auto simp: storeSuccessfulAds_def dest: in_set_takeD)
  with assms have "d \<in> set ?operations" by blast
  then show ?thesis by auto
qed

text \<open>
  Claim C10. Every ad in the array that \<open>processAds\<close> returns, and every document it
  writes to the collection of successful ads, has a success score that is a number of at
  least 70.
\<close>

theorem processAds_threshold:
  assumes "processAds db ads = Inr outcome"
  shows "(\<forall>s \<in> set (returned outcome). \<exists>v. scored_ad.successScore s = Num v \<and> 70 \<le> v)
       \<and> (\<forall>d \<in> set (stored outcome). \<exists>v. successful_ad.successScore d = Num v \<and> 70 \<le> v)"
proof -
  let ?successful = "filter (\<lambda>s. scored_ad.successScore s \<ge> MIN_SUCCESS_SCORE)
                       (map (\<lambda>a. projr (calculateScore db a)) ads)"
  have number: "\<exists>v. n = Num v \<and> 70 \<le> v" if "n \<ge> MIN_SUCCESS_SCORE" for n
    using that by (cases n) (simp_all add: MIN_SUCCESS_SCORE_def)
  from assms have outcome: "returned outcome = ?successful"
    "stored outcome = storeSuccessfulAds db ?successful"
    by (auto simp: processAds_value)
  have "\<exists>v. scored_ad.successScore s = Num v \<and> 70 \<le> v" if "s \<in> set (returned outcome)" for s
    using that number unfolding outcome by simp
  moreover have "\<exists>v. successful_ad.successScore d = Num v \<and> 70 \<le> v"
    if "d \<in> set (stored outcome)" for d
  proof -
    from that have "d \<in> set (storeSuccessfulAds db ?successful)"
      by (simp add: outcome)
    then obtain s where "s \<in> set ?successful"
      and "successful_ad.successScore d = scored_ad.successScore s"
      using storeSuccessfulAds_source by blast
    then show ?thesis using number by simp
  qed
  ultimately show ?thesis by blast
qed

theorem processAds_threshold_witness:
  "processAds sample_database [sample_ad ''1'', sample_ad ''bad'']
     = Inr \<lparr>returned = [\<lparr>ad = sample_ad ''1'', scored_ad.successScore = Num 85,
                          scored_ad.componentScores = sample_scores\<rparr>],
            stored = [\<lparr>adId = ''1'', successful_ad.successScore = Num 85,
                       successful_ad.componentScores = sample_scores,
                       adData = \<lparr>ad = sample_ad ''1'', scored_ad.successScore = Num 85,
                                  scored_ad.componentScores = sample_scores\<rparr>,
                       successful_ad.updatedAt = 1000\<rparr>]\<rparr>
   \<and> (\<exists>v. scored_ad.successScore
               \<lparr>ad = sample_ad ''1'', scored_ad.successScore = Num 85,
                scored_ad.componentScores = sample_scores\<rparr> = Num v \<and> 70 \<le> v)"
proof -
  have run: "processAds sample_database [sample_ad ''1'', sample_ad ''bad'']
     = Inr \<lparr>returned = [\<lparr>ad = sample_ad ''1'', scored_ad.successScore = Num 85,
                          scored_ad.componentScores = sample_scores\<rparr>],
            stored = [\<lparr>adId = ''1'', successful_ad.successScore = Num 85,
                       successful_ad.componentScores = sample_scores,
                       adData = \<lparr>ad = sample_ad ''1'', scored_ad.successScore = Num 85,
                                  scored_ad.componentScores = sample_scores\<rparr>,
                       successful_ad.updatedAt = 1000\<rparr>]\<rparr>"
    by (simp add: processAds_value scoring_defs)
  show ?thesis
    using processAds_threshold [OF run] run by simp
qed

section \<open>Common terms\<close>

text \<open>Lowercasing leaves no upper-case letter.\<close>

lemma toLowerCase_char_lower:
  "\<not> (65 \<le> (of_char (toLowerCase_char ch) :: nat) \<and> (of_char (toLowerCase_char ch) :: nat) \<le> 90)
   \<and> \<not> (192 \<le> (of_char (toLowerCase_char ch) :: nat)
        \<and> (of_char (toLowerCase_char ch) :: nat) \<le> 222
        \<and> (of_char (toLowerCase_char ch) :: nat) \<noteq> 215)"
proof (cases "isUpperCase ch")
  case False
  then show ?thesis
    by (simp add: toLowerCase_char_def isUpperCase_def Let_def)
next
  case True
  define n where "n = (of_char ch :: nat)"
  from True have range: "(65 \<le> n \<and> n \<le> 90) \<or> (192 \<le> n \<and> n \<le> 222 \<and> n \<noteq> 215)"
    by (simp add: isUpperCase_def n_def Let_def)
  then have "n + 32 < 256" by auto
  then have "(n + 32) mod 256 = n + 32" by simp
  with True have "(of_char (toLowerCase_char ch) :: nat) = n + 32"
    by (simp add: toLowerCase_char_def n_def)
  with range show ?thesis by auto
qed

lemma capital_letters:
  "ch \<in> set ''ABCDEFGHIJKLMNOPQRSTUVWXYZ''
     \<Longrightarrow> 65 \<le> (of_char ch :: nat) \<and> (of_char ch :: nat) \<le> 90"
  by auto

lemma toLowerCase_lower:
  assumes "ch \<in> set (toLowerCase s)"
  shows "ch \<notin> set ''ABCDEFGHIJKLMNOPQRSTUVWXYZ''
       \<and> \<not> (192 \<le> (of_char ch :: nat) \<and> (of_char ch :: nat) \<le> 222
            \<and> (of_char ch :: nat) \<noteq> 215)"
proof -
  from assms obtain x where "ch = toLowerCase_char x"
    by (auto simp: toLowerCase_def)
  then show ?thesis
    using toLowerCase_char_lower [of x] capital_letters [of ch] by blast
qed

text \<open>The nested loops visit the first ten items of each document, one after the other.\<close>

lemma foldl_nested:
  "foldl (\<lambda>acc d. foldl f acc (g d)) acc0 ds = foldl f acc0 (concat (map g ds))"
  by (induction ds arbitrary: acc0) simp_all

lemma collect_terms_visited:
  "collect_terms sw documents = foldl (add_term sw) [] (visited_items documents)"
  by (simp add: collect_terms_def visited_items_def foldl_nested)

lemma add_term_distinct:
  "distinct (map fst terms) \<Longrightarrow> distinct (map fst (add_term sw terms item))"
  by (simp add: add_term_def Let_def distinct_update split: option.split)

lemma visited_distinct: "distinct (map fst (foldl (add_term sw) [] items))"
  by (induction items rule: rev_induct) (simp_all add: add_term_distinct)

lemma double_sum_single: "double_sum [w] = w"
  by (simp add: double_sum_def)

lemma double_sum_snoc: "ws \<noteq> [] \<Longrightarrow> double_sum (ws @ [w]) = double (double_sum ws + w)"
  by (cases ws) (simp_all add: double_sum_def)

text \<open>The entry of a key after the loop has visited \<open>items\<close>.\<close>

lemma visited_entry:
  "map_of (foldl (add_term sw) [] items) k =
     (if k \<in> set (map item_key items) \<and> k \<notin> set sw \<and> 3 \<le> length k
          \<and> k \<notin> set Object_prototype_keys
      then Some \<lparr>term_entry.term = k,
                 term_entry.count = count_list (map item_key items) k,
                 tfidfSum = double_sum (map tfidf (filter (\<lambda>item. item_key item = k) items))\<rparr>
      else None)"
proof (induction items arbitrary: k rule: rev_induct)
  case Nil
  then show ?case by simp
next
  case (snoc item items)
  define terms where "terms = foldl (add_term sw) [] items"
  have step: "foldl (add_term sw) [] (items @ [item]) = add_term sw terms item"
    by (simp add: terms_def)
  have before: "map_of terms k' =
     (if k' \<in> set (map item_key items) \<and> k' \<notin> set sw \<and> 3 \<le> length k'
          \<and> k' \<notin> set Object_prototype_keys
      then Some \<lparr>term_entry.term = k',
                 term_entry.count = count_list (map item_key items) k',
                 tfidfSum = double_sum (map tfidf (filter (\<lambda>item. item_key item = k') items))\<rparr>
      else None)" for k'
    unfolding terms_def by (rule snoc.IH)
  have unseen: "filter (\<lambda>item. item_key item = k') items = []"
    if "k' \<notin> item_key ` set items" for k'
    using that by (auto simp: filter_empty_conv)
  have seen: "double_sum (map tfidf (filter (\<lambda>item. item_key item = k') items) @ [w])
      = double (double_sum (map tfidf (filter (\<lambda>item. item_key item = k') items)) + w)"
    if "x \<in> set items" "item_key x = k'" for k' x w
    using that by (intro double_sum_snoc) (auto simp: filter_empty_conv)
  show ?case
  proof (cases "item_key item = k")
    case False
    then have "map_of (add_term sw terms item) k = map_of terms k"
      by (auto simp: add_term_def Let_def update_conv' item_key_def split: option.split)
    with False show ?thesis unfolding step by (simp add: before)
  next
    case True
    show ?thesis
    proof (cases "k \<in> set sw \<or> length k < 3")
      case True
      with \<open>item_key item = k\<close> have "add_term sw terms item = terms"
        by (auto simp: add_term_def Let_def item_key_def)
      with True show ?thesis unfolding step by (auto simp: before)
    next
      case False
      show ?thesis
      proof (cases "map_of terms k")
        case None
        with False \<open>item_key item = k\<close> show ?thesis
          unfolding step using before [of k]
          by (auto simp: add_term_def Let_def item_key_def [symmetric] update_conv' unseen
              double_sum_single split: if_splits)
      next
        case (Some entry)
        with False \<open>item_key item = k\<close> show ?thesis
          unfolding step using before [of k]
          by (auto simp: add_term_def Let_def item_key_def [symmetric] update_conv' seen
              split: if_splits)
      qed
    qed
  qed
qed

lemma collected_entry:
  assumes "entry \<in> set (Object_values (collect_terms sw documents))"
  shows "term_entry.term entry \<in> set (map item_key (visited_items documents))
       \<and> term_entry.term entry \<notin> set sw
       \<and> 3 \<le> length (term_entry.term entry)
       \<and> term_entry.count entry
           = count_list (map item_key (visited_items documents)) (term_entry.term entry)
       \<and> tfidfSum entry
           = double_sum (map tfidf (filter (\<lambda>item. item_key item = term_entry.term entry)
                                      (visited_items documents)))"
proof -
  let ?terms = "foldl (add_term sw) [] (visited_items documents)"
  from assms have "entry \<in> snd ` set ?terms"
    by (auto simp: Object_values_def collect_terms_visited)
  then obtain k where "(k, entry) \<in> set ?terms" by auto
  then have "map_of ?terms k = Some entry"
    using visited_distinct [of sw "visited_items documents"] by simp
  then show ?thesis
    by (auto simp: visited_entry split: if_splits)
qed

lemma count_list_distinct: "distinct xs \<Longrightarrow> count_list xs x = (if x \<in> set xs then 1 else 0)"
  by (induction xs) auto

lemma visited_count:
  assumes "\<And>d. d \<in> set documents \<Longrightarrow> distinct (map item_key (take 10 d))"
  shows "count_list (map item_key (visited_items documents)) t = documentCount documents t"
  using assms
proof (induction documents)
  case Nil
  then show ?case by (simp add: visited_items_def documentCount_def)
next
  case (Cons d documents)
  have "count_list (map item_key (take 10 d)) t
          = (if t \<in> set (map item_key (take 10 d)) then 1 else 0)"
    using Cons.prems [of d] by (simp add: count_list_distinct)
  moreover have "count_list (map item_key (visited_items documents)) t
                   = documentCount documents t"
    using Cons.IH Cons.prems by simp
  ultimately show ?case
    by (simp add: visited_items_def documentCount_def)
qed

lemma set_insert_sorted: "set (insert_sorted c x ys) = insert x (set ys)"
  by (induction ys) auto

lemma set_Array_sort: "set (Array_sort c xs) = set xs"
  by (induction xs) (simp_all add: Array_sort_def set_insert_sorted)

text \<open>
  The comparison function on two terms whose averages are doubles: the rounded difference
  has the sign of the difference.
\<close>

lemma compareTerms_ranks:
  assumes "on_grid (averageTfidf a)" and "on_grid (averageTfidf b)"
  shows "compareTerms a b \<le> 0 \<longleftrightarrow> ranks_before a b"
proof (cases "count b = count a")
  case True
  have "on_grid (averageTfidf b - averageTfidf a)"
    using assms by (simp add: on_grid_diff)
  then have "double (averageTfidf b - averageTfidf a) \<le> 0
      \<longleftrightarrow> averageTfidf b - averageTfidf a \<le> 0"
    by (rule double_sign)
  with True show ?thesis
    by (simp add: compareTerms_def ranks_before_def)
next
  case False
  have "real (count b) - real (count a) = of_int (int (count b) - int (count a))"
    by simp
  then have "on_grid (real (count b) - real (count a))"
    by (simp only: on_grid_of_int)
  then have "double (real (count b) - real (count a)) \<le> 0
      \<longleftrightarrow> real (count b) - real (count a) \<le> 0"
    by (rule double_sign)
  with False show ?thesis
    by (auto simp: compareTerms_def ranks_before_def)
qed

lemma ranks_before_total: "ranks_before a b \<or> ranks_before b a"
  by (auto simp: ranks_before_def)

lemma ranks_before_trans: "ranks_before a b \<Longrightarrow> ranks_before b d \<Longrightarrow> ranks_before a d"
  by (auto simp: ranks_before_def)

lemma sorted_insert_sorted:
  assumes "on_grid (averageTfidf x)" and "\<forall>y \<in> set ys. on_grid (averageTfidf y)"
    and "sorted_wrt ranks_before ys"
  shows "sorted_wrt ranks_before (insert_sorted compareTerms x ys)"
  using assms(2,3)
proof (induction ys)
  case Nil
  then show ?case by simp
next
  case (Cons y ys)
  have ranks: "compareTerms x y \<le> 0 \<longleftrightarrow> ranks_before x y"
    using assms(1) Cons.prems(1) by (simp add: compareTerms_ranks)
  show ?case
  proof (cases "compareTerms x y \<le> 0")
    case True
    then have "ranks_before x y" by (simp add: ranks)
    with Cons.prems have "\<forall>z \<in> set (y # ys). ranks_before x z"
      using ranks_before_trans by auto
    with True Cons.prems show ?thesis by simp
  next
    case False
    then have "ranks_before y x"
      using ranks_before_total [of x y] by (simp add: ranks)
    with False Cons show ?thesis
      by (auto simp: set_insert_sorted)
  qed
qed

lemma sorted_Array_sort:
  "\<forall>x \<in> set xs. on_grid (averageTfidf x) \<Longrightarrow> sorted_wrt ranks_before (Array_sort compareTerms xs)"
proof (induction xs)
  case Nil
  then show ?case by (simp add: Array_sort_def)
next
  case (Cons x xs)
  have "Array_sort compareTerms (x # xs) = insert_sorted compareTerms x (Array_sort compareTerms xs)"
    by (simp add: Array_sort_def)
  moreover have "sorted_wrt ranks_before (insert_sorted compareTerms x (Array_sort compareTerms xs))"
    using Cons by (intro sorted_insert_sorted) (simp_all add: set_Array_sort)
  ultimately show ?case by simp
qed

lemma sorted_wrt_take_any: "sorted_wrt R xs \<Longrightarrow> sorted_wrt R (take n xs)"
proof (induction xs arbitrary: n)
  case Nil
  then show ?case by simp
next
  case (Cons x xs)
  show ?case
  proof (cases n)
    case 0
    then show ?thesis by simp
  next
    case (Suc m)
    with Cons show ?thesis
      by (auto dest: in_set_takeD)
  qed
qed

lemma two_positions:
  "2 \<le> length (filter P xs) \<Longrightarrow> \<exists>i j. i < j \<and> j < length xs \<and> P (xs ! i) \<and> P (xs ! j)"
proof (induction xs)
  case Nil
  then show ?case by simp
next
  case (Cons x xs)
  show ?case
  proof (cases "P x")
    case True
    with Cons.prems have "filter P xs \<noteq> []" by auto
    then obtain y where "y \<in> set xs" and "P y"
      by (auto simp: filter_empty_conv)
    then obtain k where "k < length xs" and "P (xs ! k)"
      by (auto simp: in_set_conv_nth)
    with True have "0 < Suc k \<and> Suc k < length (x # xs)
        \<and> P ((x # xs) ! 0) \<and> P ((x # xs) ! Suc k)"
      by simp
    then show ?thesis by blast
  next
    case False
    with Cons obtain i j where "i < j" "j < length xs" "P (xs ! i)" "P (xs ! j)"
      by auto
    then have "Suc i < Suc j \<and> Suc j < length (x # xs)
        \<and> P ((x # xs) ! Suc i) \<and> P ((x # xs) ! Suc j)"
      by simp
    then show ?thesis by blast
  qed
qed

text \<open>
  Claim C8. Every common term is the lowercased term of an item among the first ten of
  some document and holds no upper-case letter (none of A to Z, none of the accented
  capitals 192 to 222 other than the multiplication sign 215); it has at least three
  characters and is no stopword; its count is the number of visited items with its key and
  is greater than 1. The list has at most 20 entries. Where the weights are in the range
  of the library, the average of a common term is the sum of the weights of the visited
  items with its key over its count, each addition and the division rounded to a double
  as in the code, and the list is sorted by descending count and, among equal counts, by
  descending average weight. Where the first ten terms of each document are distinct once
  lowercased (in the library a document lists each of its terms once), the count of a
  common term is the number of documents that have it among their first ten terms, and
  two documents at different positions have it there.
\<close>

theorem extractCommonTerms_ranking:
  "(\<forall>c \<in> set (extractCommonTerms sw documents).
      (\<exists>d \<in> set documents. \<exists>item \<in> set (take 10 d).
          common_term.term c = toLowerCase (term_item.term item))
      \<and> (\<forall>ch \<in> set (common_term.term c).
            ch \<notin> set ''ABCDEFGHIJKLMNOPQRSTUVWXYZ''
            \<and> \<not> (192 \<le> (of_char ch :: nat) \<and> (of_char ch :: nat) \<le> 222
                 \<and> (of_char ch :: nat) \<noteq> 215))
      \<and> 3 \<le> length (common_term.term c)
      \<and> common_term.term c \<notin> set sw
      \<and> count c = count_list (map item_key (visited_items documents)) (common_term.term c)
      \<and> 1 < count c)
   \<and> length (extractCommonTerms sw documents) \<le> 20
   \<and> (weights_in_range documents \<longrightarrow>
        (\<forall>c \<in> set (extractCommonTerms sw documents).
           averageTfidf c
             = double (double_sum (map tfidf (filter (\<lambda>item. item_key item = common_term.term c)
                                                (visited_items documents)))
                       / real (count c)))
        \<and> sorted_wrt ranks_before (extractCommonTerms sw documents))
   \<and> ((\<forall>d \<in> set documents. distinct (map item_key (take 10 d))) \<longrightarrow>
        (\<forall>c \<in> set (extractCommonTerms sw documents).
           count c = documentCount documents (common_term.term c)
           \<and> (\<exists>i j. i < j \<and> j < length documents
                 \<and> common_term.term c \<in> set (map item_key (take 10 (documents ! i)))
                 \<and> common_term.term c \<in> set (map item_key (take 10 (documents ! j))))))"
proof -
  let ?mapped = "filter (\<lambda>item. count item > 1)
             (map (\<lambda>item. \<lparr>common_term.term = term_entry.term item,
                            count = term_entry.count item,
                            averageTfidf =
                              double (tfidfSum item / real (term_entry.count item))\<rparr>)
                (Object_values (collect_terms sw documents)))"
  have each: "(\<exists>d \<in> set documents. \<exists>item \<in> set (take 10 d).
                common_term.term c = toLowerCase (term_item.term item))
            \<and> (\<forall>ch \<in> set (common_term.term c).
                  ch \<notin> set ''ABCDEFGHIJKLMNOPQRSTUVWXYZ''
                  \<and> \<not> (192 \<le> (of_char ch :: nat) \<and> (of_char ch :: nat) \<le> 222
                       \<and> (of_char ch :: nat) \<noteq> 215))
            \<and> 3 \<le> length (common_term.term c)
            \<and> common_term.term c \<notin> set sw
            \<and> count c
                = count_list (map item_key (visited_items documents)) (common_term.term c)
            \<and> 1 < count c
            \<and> averageTfidf c
                = double (double_sum
                            (map tfidf (filter (\<lambda>item. item_key item = common_term.term c)
                                          (visited_items documents)))
                          / real (count c))"
    if "c \<in> set (extractCommonTerms sw documents)" for c
  proof -
    from that have "c \<in> set ?mapped"
      unfolding extractCommonTerms_def
      by (auto dest!: in_set_takeD simp: set_Array_sort)
    then obtain entry where entry: "entry \<in> set (Object_values (collect_terms sw documents))"
      and c: "c = \<lparr>common_term.term = term_entry.term entry,
                    count = term_entry.count entry,
                    averageTfidf = double (tfidfSum entry / real (term_entry.count entry))\<rparr>"
      and many: "1 < count c"
      by auto
    note facts = collected_entry [OF entry]
    from facts have "term_entry.term entry \<in> set (map item_key (visited_items documents))"
      by simp
    then have origin: "\<exists>d \<in> set documents. \<exists>item \<in> set (take 10 d).
                term_entry.term entry = toLowerCase (term_item.term item)"
      by (auto simp: visited_items_def item_key_def)
    then have "\<forall>ch \<in> set (term_entry.term entry).
                  ch \<notin> set ''ABCDEFGHIJKLMNOPQRSTUVWXYZ''
                  \<and> \<not> (192 \<le> (of_char ch :: nat) \<and> (of_char ch :: nat) \<le> 222
                       \<and> (of_char ch :: nat) \<noteq> 215)"
      using toLowerCase_lower by metis
    with origin show ?thesis
      using facts many by (simp add: c)
  qed
  have documents: "count c = documentCount documents (common_term.term c)
           \<and> (\<exists>i j. i < j \<and> j < length documents
                 \<and> common_term.term c \<in> set (map item_key (take 10 (documents ! i)))
                 \<and> common_term.term c \<in> set (map item_key (take 10 (documents ! j))))"
    if once: "\<forall>d \<in> set documents. distinct (map item_key (take 10 d))"
      and c: "c \<in> set (extractCommonTerms sw documents)" for c
  proof -
    have number: "count c = documentCount documents (common_term.term c)"
      using each [OF c] visited_count [of documents] once by simp
    with each [OF c] have "2 \<le> length (filter
        (\<lambda>listTerms_i. common_term.term c \<in> set (map item_key (take 10 listTerms_i)))
        documents)"
      by (simp add: documentCount_def)
    from two_positions [OF this] number show ?thesis by blast
  qed
  have "\<forall>x \<in> set ?mapped. on_grid (averageTfidf x)"
    by (auto simp: double_on_grid)
  then have "sorted_wrt ranks_before (extractCommonTerms sw documents)"
    unfolding extractCommonTerms_def by (intro sorted_wrt_take_any sorted_Array_sort)
  moreover have "length (extractCommonTerms sw documents) \<le> 20"
    by (simp add: extractCommonTerms_def)
  ultimately show ?thesis using each documents by blast
qed

text \<open>
  The sample documents: \<open>shop\<close> is in all three, once with a capital, \<open>sale\<close> in two, \<open>2024\<close>
  in one. The average of \<open>shop\<close> is the double nearest to \<open>5 / 3\<close>, below the average 2 of
  \<open>sale\<close>: the count decides.
\<close>

lemma double_zero: "double 0 = 0"
  by (simp add: double_def)

lemma double_small:
  "double 1 = 1" "double (- 1) = - 1" "double (1 / 2) = 1 / 2"
  "double (1 / 9007199254740992) = 1 / 9007199254740992"
  "double (9007199254740993 / 9007199254740992) = 1"
  "double (5 / 3) = 7505999378950827 / 4503599627370496"
  using double_of_int [of 1] double_of_int [of "- 1"] double_eval [of "- 1" "1 / 2"]
    double_eval [of "- 53" "1 / 9007199254740992"]
    double_eval [of 0 "9007199254740993 / 9007199254740992"] double_eval [of 0 "5 / 3"]
  by (simp_all add: rne_def emin_def)

lemma sample_lowercase:
  "toLowerCase ''shop'' = ''shop''" "toLowerCase ''sale'' = ''sale''"
  "toLowerCase ''the'' = ''the''" "toLowerCase ''2024'' = ''2024''"
  "toLowerCase ''Shop'' = ''shop''"
  "toLowerCase ''aaa'' = ''aaa''" "toLowerCase ''bbb'' = ''bbb''"
  by (simp_all add: toLowerCase_def toLowerCase_char_def isUpperCase_def Let_def
        char_of_eq_iff)

lemma sample_collect_terms:
  "collect_terms [''the''] sample_documents =
   [(''shop'', \<lparr>term_entry.term = ''shop'', term_entry.count = 3, tfidfSum = 5\<rparr>),
    (''sale'', \<lparr>term_entry.term = ''sale'', term_entry.count = 2, tfidfSum = 4\<rparr>),
    (''2024'', \<lparr>term_entry.term = ''2024'', term_entry.count = 1, tfidfSum = 1\<rparr>)]"
  by (simp add: collect_terms_def sample_documents_def add_term_def sample_lowercase
        Object_prototype_keys_def Let_def double_numeral)

lemma sample_array_indices:
  "isArrayIndex ''2024''" "\<not> isArrayIndex ''shop''" "\<not> isArrayIndex ''sale''"
  "\<not> isArrayIndex ''aaa''" "\<not> isArrayIndex ''bbb''"
  by (simp_all add: isArrayIndex_def isDigit_def digitsValue_def digitValue_def)

lemma sample_common_terms:
  "extractCommonTerms [''the''] sample_documents =
     [\<lparr>common_term.term = ''shop'', count = 3,
        averageTfidf = 7505999378950827 / 4503599627370496\<rparr>,
      \<lparr>common_term.term = ''sale'', count = 2, averageTfidf = 2\<rparr>]"
  by (simp add: extractCommonTerms_def sample_collect_terms Object_values_def
        sample_array_indices Array_sort_def compareTerms_def double_numeral double_small)

lemma sample_weights: "weights_in_range sample_documents"
  by (simp add: weights_in_range_def sample_documents_def visited_items_def
        double_numeral double_small)

text \<open>
  The documents in which rounding decides: the sum of the weights 1 and \<open>2 powi (- 53)\<close> is
  the double 1, the two terms have the average \<open>1 / 2\<close>, and \<open>bbb\<close>, met first, stays first.
\<close>

lemma rounding_collect_terms:
  "collect_terms [] rounding_documents =
   [(''bbb'', \<lparr>term_entry.term = ''bbb'', term_entry.count = 2, tfidfSum = 1\<rparr>),
    (''aaa'', \<lparr>term_entry.term = ''aaa'', term_entry.count = 2, tfidfSum = 1\<rparr>)]"
  by (simp add: collect_terms_def rounding_documents_def add_term_def sample_lowercase
        Object_prototype_keys_def Let_def double_small)

lemma rounding_common_terms:
  "extractCommonTerms [] rounding_documents =
     [\<lparr>common_term.term = ''bbb'', count = 2, averageTfidf = 1 / 2\<rparr>,
      \<lparr>common_term.term = ''aaa'', count = 2, averageTfidf = 1 / 2\<rparr>]"
  by (simp add: extractCommonTerms_def rounding_collect_terms Object_values_def
        sample_array_indices Array_sort_def compareTerms_def double_small double_zero)

lemma rounding_weights: "weights_in_range rounding_documents"
  by (simp add: weights_in_range_def rounding_documents_def visited_items_def double_small)

theorem extractCommonTerms_ranking_witness:
  "weights_in_range sample_documents
   \<and> distinct (map item_key (take 10 (sample_documents ! 0)))
   \<and> distinct (map item_key (take 10 (sample_documents ! 1)))
   \<and> distinct (map item_key (take 10 (sample_documents ! 2)))
   \<and> extractCommonTerms [''the''] sample_documents =
       [\<lparr>common_term.term = ''shop'', count = 3,
        averageTfidf = 7505999378950827 / 4503599627370496\<rparr>,
        \<lparr>common_term.term = ''sale'', count = 2, averageTfidf = 2\<rparr>]
   \<and> documentCount sample_documents ''shop'' = 3
   \<and> documentCount sample_documents ''sale'' = 2
   \<and> ranks_before
         \<lparr>common_term.term = ''shop'', count = 3,
          averageTfidf = 7505999378950827 / 4503599627370496\<rparr>
         \<lparr>common_term.term = ''sale'', count = 2, averageTfidf = 2\<rparr>
   \<and> weights_in_range rounding_documents
   \<and> extractCommonTerms [] rounding_documents =
       [\<lparr>common_term.term = ''bbb'', count = 2, averageTfidf = 1 / 2\<rparr>,
        \<lparr>common_term.term = ''aaa'', count = 2, averageTfidf = 1 / 2\<rparr>]
   \<and> ranks_before \<lparr>common_term.term = ''bbb'', count = 2, averageTfidf = 1 / 2\<rparr>
         \<lparr>common_term.term = ''aaa'', count = 2, averageTfidf = 1 / 2\<rparr>"
proof -
  have each: "\<forall>d \<in> set sample_documents. distinct (map item_key (take 10 d))"
    by (simp add: sample_documents_def item_key_def sample_lowercase)
  have "distinct (map item_key (take 10 (sample_documents ! 0)))
   \<and> distinct (map item_key (take 10 (sample_documents ! 1)))
   \<and> distinct (map item_key (take 10 (sample_documents ! 2)))"
    by (simp add: sample_documents_def item_key_def sample_lowercase)
  then show ?thesis
    using extractCommonTerms_ranking [of "[''the'']" sample_documents] each
      extractCommonTerms_ranking [of "[]" rounding_documents]
      sample_weights rounding_weights
    by (simp add: sample_common_terms rounding_common_terms)
qed

section \<open>The pattern cache and \<open>getSuccessPatterns\<close>\<close>

lemma analyzeSuccessPatterns_v1_flags:
  "get_fails (analyzeSuccessPatterns_v1 lib clock r ads) = get_fails r"
  by (simp add: analyzeSuccessPatterns_v1_def redis_set_def Let_def)

text \<open>
  A cache write that fails is skipped: with an empty cache that answers reads and rejects
  writes, the answer is the empty report.
\<close>

lemma getSuccessPatterns_write_skipped:
  assumes "\<not> get_fails r" and "set_fails r" and "ad_success_patterns r = None"
  shows "getSuccessPatterns lib (Inr found) clock r = (Inr (EmptyReport clock), r)"
  using assms
  by (simp add: getSuccessPatterns_def redis_get_def redis_set_def
        analyzeSuccessPatterns_v1_def Let_def)

text \<open>A cache read that fails is thrown on to the caller.\<close>

lemma getSuccessPatterns_read_fails:
  assumes "get_fails r"
  shows "getSuccessPatterns lib found clock r = (Inl RedisError, r)"
  using assms by (simp add: getSuccessPatterns_def redis_get_def)

text \<open>
  Claim C7 says that \<open>getSuccessPatterns\<close> still returns a report when the pattern cache
  cannot be reached or its read fails. On the code the rejected \<open>get\<close> reaches the \<open>catch\<close>
  of \<open>getSuccessPatterns\<close>, which logs and throws again: the caller gets the error, whatever
  the database holds.
\<close>

theorem getSuccessPatterns_throws_when_cache_unreachable:
  "getSuccessPatterns lib found clock unreachable_redis = (Inl RedisError, unreachable_redis)
   \<and> getSuccessPatterns lib found clock (r\<lparr>get_fails := True\<rparr>)
       = (Inl RedisError, r\<lparr>get_fails := True\<rparr>)"
  by (simp add: getSuccessPatterns_read_fails unreachable_redis_def)

section \<open>The threshold of the pattern analysis\<close>

lemma join_empty: "join sep xs = [] \<Longrightarrow> x \<in> set xs \<Longrightarrow> x = []"
  by (induction sep xs rule: join.induct) auto

lemma join_filtered_nonempty:
  assumes "join sep (filter (\<lambda>t. t \<noteq> []) xs) \<noteq> []"
  shows "join sep xs \<noteq> []"
proof
  assume "join sep xs = []"
  then have "filter (\<lambda>t. t \<noteq> []) xs = []"
    using join_empty [of sep xs] by (auto simp: filter_empty_conv)
  with assms show False by simp
qed

lemma length_filter_mono:
  "(\<And>x. x \<in> set xs \<Longrightarrow> P x \<Longrightarrow> Q x) \<Longrightarrow> length (filter P xs) \<le> length (filter Q xs)"
  by (induction xs) auto

text \<open>
  The version after the partial fix: with fewer than five ads whose concatenated text is
  not empty it returns nothing and leaves the cache as it is.
\<close>

lemma analyzeSuccessPatterns_insufficient:
  assumes "length (filter (\<lambda>a. join '' '' (creative_texts a) \<noteq> []) successfulAds) < 5"
  shows "analyzeSuccessPatterns lib clock r successfulAds = (None, r)"
proof -
  let ?text = "\<lambda>a. join '' '' (filter (\<lambda>t. t \<noteq> []) (creative_texts a))"
  let ?kept = "\<lambda>text :: string. text \<noteq> [] \<and> length (trim text) > 0"
  have "length (filter ?kept (map ?text successfulAds))
          = length (filter (\<lambda>a. ?kept (?text a)) successfulAds)"
    by (simp add: filter_map comp_def)
  also have "\<dots> \<le> length (filter (\<lambda>a. join '' '' (creative_texts a) \<noteq> []) successfulAds)"
    by (rule length_filter_mono) (use join_filtered_nonempty in blast)
  finally have "length (filter ?kept (map ?text successfulAds)) < 5"
    using assms by simp
  then show ?thesis
    by (simp add: analyzeSuccessPatterns_def Let_def)
qed

text \<open>The first version on fewer than five ads: nothing is analysed.\<close>

lemma analyzeSuccessPatterns_v1_few_ads:
  "length successfulAds < 5 \<Longrightarrow> analyzeSuccessPatterns_v1 lib clock r successfulAds = r"
  by (simp add: analyzeSuccessPatterns_v1_def)

text \<open>
  Claim C9 says that with fewer than five ads that have text the analysis produces no
  report. The first version of \<open>analyzeSuccessPatterns\<close>, the one \<open>processAds\<close> and
  \<open>getSuccessPatterns\<close> call, counts the ads and not their texts: on five ads without any
  text it builds a report with an empty list of terms and writes it to the cache. On the
  same ads the version after the partial fix returns nothing.
\<close>

theorem analyzeSuccessPatterns_v1_reports_without_text:
  "map (\<lambda>a. join '' '' (creative_texts a)) (map textless_ad [''1'', ''2'', ''3'', ''4'', ''5''])
     = [[], [], [], [], []]
   \<and> ad_success_patterns
       (analyzeSuccessPatterns_v1 sample_library clock empty_redis
          (map textless_ad [''1'', ''2'', ''3'', ''4'', ''5'']))
     = Some \<lparr>commonTerms = [],
             structurePatterns =
               \<lparr>averageTextLength = 0, ctaPresenceRate = 0,
                questionPresenceRate = 0, emojiPresenceRate = 0\<rparr>,
             visualPatterns =
               \<lparr>imagePresenceRate = 95, videoPresenceRate = 60, carouselPresenceRate = 40,
                note = ''Visual analysis requires additional implementation''\<rparr>,
             patterns.updatedAt = clock\<rparr>
   \<and> ad_success_patterns
       (analyzeSuccessPatterns_v1 lib clock empty_redis
          (map textless_ad [''1'', ''2'', ''3'', ''4'', ''5''])) \<noteq> None
   \<and> analyzeSuccessPatterns lib clock empty_redis
        (map textless_ad [''1'', ''2'', ''3'', ''4'', ''5'']) = (None, empty_redis)"
proof -
  have texts: "creative_texts (textless_ad i) = []" for i
    by (simp add: creative_texts_def textless_ad_def sample_ad_def)
  have no_terms: "extractCommonTerms sw [[], [], [], [], []] = []" for sw
    by (simp add: extractCommonTerms_def collect_terms_def Object_values_def Array_sort_def)
  have "analyzeSuccessPatterns lib clock empty_redis
        (map textless_ad [''1'', ''2'', ''3'', ''4'', ''5'']) = (None, empty_redis)"
    by (rule analyzeSuccessPatterns_insufficient) (simp add: texts)
  then show ?thesis
    by (simp add: texts analyzeSuccessPatterns_v1_def Let_def redis_set_def empty_redis_def
          documentTerms_def sample_library_def no_terms analyzeVisualElements_def upt_rec)
qed

end
